theory Spec2Isabelle
  imports Complex_Main "HOL-Library.Sublist"
begin

section \<open>The lead pipeline of \<^verbatim>\<open>src/autonomous-agent.js\<close>\<close>

text \<open>
  A shallow embedding of the class \<^verbatim>\<open>AutonomousHealthcareAgent\<close>: the identifier and
  filter functions, the site extractor, the deployment orchestrator, the per-lead phase
  sequencer with its batch loop, and the conversational configurator with its per-channel
  history. The file holds the pipeline twice with the same text; the line numbers below are
  those of the first copy.

  Conventions.
  \<^item> A JavaScript string is a \<^typ>\<open>string\<close>: a list of code units, here the code units
    \<open>U+0000\<close> to \<open>U+00FF\<close>.
  \<^item> An exception is \<open>Inl message\<close> of a sum type, a normal return is \<open>Inr value\<close>.
  \<^item> Every external collaborator (HTTP fetch, the search, completion, store, repository
    and deployment services, the URL and JSON parsers of the runtime, the clock) is a field
    of the record \<open>world\<close>: a function from the request to the outcome the code
    observes. Console output is not modelled.
\<close>

subsection \<open>Strings\<close>

type_synonym error = string

definition upper_chars :: string where
  "upper_chars = ''ABCDEFGHIJKLMNOPQRSTUVWXYZ'' @
     [CHR 0xC0, CHR 0xC1, CHR 0xC2, CHR 0xC3, CHR 0xC4, CHR 0xC5, CHR 0xC6, CHR 0xC7,
      CHR 0xC8, CHR 0xC9, CHR 0xCA, CHR 0xCB, CHR 0xCC, CHR 0xCD, CHR 0xCE, CHR 0xCF,
      CHR 0xD0, CHR 0xD1, CHR 0xD2, CHR 0xD3, CHR 0xD4, CHR 0xD5, CHR 0xD6,
      CHR 0xD8, CHR 0xD9, CHR 0xDA, CHR 0xDB, CHR 0xDC, CHR 0xDD, CHR 0xDE]"

definition lower_chars :: string where
  "lower_chars = ''abcdefghijklmnopqrstuvwxyz'' @
     [CHR 0xE0, CHR 0xE1, CHR 0xE2, CHR 0xE3, CHR 0xE4, CHR 0xE5, CHR 0xE6, CHR 0xE7,
      CHR 0xE8, CHR 0xE9, CHR 0xEA, CHR 0xEB, CHR 0xEC, CHR 0xED, CHR 0xEE, CHR 0xEF,
      CHR 0xF0, CHR 0xF1, CHR 0xF2, CHR 0xF3, CHR 0xF4, CHR 0xF5, CHR 0xF6,
      CHR 0xF8, CHR 0xF9, CHR 0xFA, CHR 0xFB, CHR 0xFC, CHR 0xFD, CHR 0xFE]"

text \<open>
  \<^verbatim>\<open>String.prototype.toLowerCase\<close> on the code units up to \<open>U+00FF\<close>: the letters
  \<open>A\<close> to \<open>Z\<close> and the Latin-1 capitals \<open>U+00C0\<close> to \<open>U+00DE\<close> (without the
  multiplication sign \<open>U+00D7\<close>) move to their small forms, every other unit stays.
\<close>

definition lower_char :: "char \<Rightarrow> char" where
  "lower_char c = (case map_of (zip upper_chars lower_chars) c of Some d \<Rightarrow> d | None \<Rightarrow> c)"

definition toLowerCase :: "string \<Rightarrow> string" where
  "toLowerCase s = map lower_char s"

text \<open>
  \<^verbatim>\<open>toUpperCase\<close> of one character, as \<^verbatim>\<open>extractCompanyFromDomain\<close> applies it to the
  first character of a host name label; host names are ASCII, and only \<open>a\<close> to \<open>z\<close>
  are mapped here.
\<close>

definition upper_char :: "char \<Rightarrow> char" where
  "upper_char c = (case map_of (zip (take 26 lower_chars) (take 26 upper_chars)) c of
                     Some d \<Rightarrow> d | None \<Rightarrow> c)"

text \<open>The white space of \<^verbatim>\<open>trim\<close> and of the regular expression class \<^verbatim>\<open>\s\<close>.\<close>

definition js_space :: "char \<Rightarrow> bool" where
  "js_space c = (c \<in> set [CHR 0x09, CHR 0x0A, CHR 0x0B, CHR 0x0C, CHR 0x0D, CHR 0x20, CHR 0xA0])"

definition trimStart :: "string \<Rightarrow> string" where
  "trimStart s = dropWhile js_space s"

definition trimEnd :: "string \<Rightarrow> string" where
  "trimEnd s = rev (dropWhile js_space (rev s))"

definition trim :: "string \<Rightarrow> string" where
  "trim s = trimEnd (trimStart s)"

text \<open>\<^verbatim>\<open>s.includes(t)\<close>, \<^verbatim>\<open>s.startsWith(t)\<close>, \<^verbatim>\<open>s.endsWith(t)\<close>.\<close>

definition str_includes :: "string \<Rightarrow> string \<Rightarrow> bool" where
  "str_includes s t = sublist t s"

definition startsWith :: "string \<Rightarrow> string \<Rightarrow> bool" where
  "startsWith s t = prefix t s"

definition endsWith :: "string \<Rightarrow> string \<Rightarrow> bool" where
  "endsWith s t = suffix t s"

text \<open>\<^verbatim>\<open>s.replace(/^t/, '')\<close> and \<^verbatim>\<open>s.replace(/t$/, '')\<close> for a literal \<open>t\<close>.\<close>

definition dropPrefix :: "string \<Rightarrow> string \<Rightarrow> string" where
  "dropPrefix t s = (if prefix t s then drop (length t) s else s)"

definition dropSuffix :: "string \<Rightarrow> string \<Rightarrow> string" where
  "dropSuffix t s = (if suffix t s then take (length s - length t) s else s)"

text \<open>\<^verbatim>\<open>s.split(c)\<close> for a one-character separator, and for a set of separator characters.\<close>

fun splitWhere :: "(char \<Rightarrow> bool) \<Rightarrow> string \<Rightarrow> string list" where
  "splitWhere sep [] = [[]]"
| "splitWhere sep (c # cs) =
     (if sep c then [] # splitWhere sep cs
      else (case splitWhere sep cs of
              [] \<Rightarrow> [[c]]
            | w # ws \<Rightarrow> (c # w) # ws))"

definition split :: "char \<Rightarrow> string \<Rightarrow> string list" where
  "split c s = splitWhere (\<lambda>d. d = c) s"

text \<open>\<^verbatim>\<open>parts.join(sep)\<close>.\<close>

fun join :: "string \<Rightarrow> string list \<Rightarrow> string" where
  "join sep [] = []"
| "join sep [w] = w"
| "join sep (w # ws) = w @ sep @ join sep ws"

text \<open>The decimal digits of a number, as a template literal prints it.\<close>

definition digit_char :: "nat \<Rightarrow> char" where
  "digit_char d = ''0123456789'' ! (d mod 10)"

function show_nat :: "nat \<Rightarrow> string" where
  "show_nat n = (if n < 10 then [digit_char n] else show_nat (n div 10) @ [digit_char (n mod 10)])"
  by pat_completeness auto
termination
  by (relation "measure id") auto

declare show_nat.simps [simp del]

subsection \<open>Identifiers derived from the host name (lines 2042-2062)\<close>

text \<open>
  \<^verbatim>\<open>
  generatePracticeId(domain) {
    return domain
      .replace(/^www\./, '')
      .replace(/\.(com|co\.uk|org|net)$/, '')
      .toLowerCase()
      .replace(/[^a-z0-9]/g, '-')
      .replace(/-+/g, '-')
      .replace(/^-|-$/g, '')
      .substring(0, 25);
  }
  \<close>
  At most one of the four endings matches a given string, so the order in which they are
  tried does not matter.
\<close>

definition stripTld :: "string \<Rightarrow> string" where
  "stripTld s =
     (if suffix ''.com'' s then dropSuffix ''.com'' s
      else if suffix ''.co.uk'' s then dropSuffix ''.co.uk'' s
      else if suffix ''.org'' s then dropSuffix ''.org'' s
      else if suffix ''.net'' s then dropSuffix ''.net'' s
      else s)"

definition id_char :: "char \<Rightarrow> bool" where
  "id_char c = (c \<in> set ''abcdefghijklmnopqrstuvwxyz0123456789'')"

definition hyphenate :: "string \<Rightarrow> string" where
  "hyphenate s = map (\<lambda>c. if id_char c then c else CHR ''-'') s"

fun collapseHyphens :: "string \<Rightarrow> string" where
  "collapseHyphens [] = []"
| "collapseHyphens [c] = [c]"
| "collapseHyphens (c # d # cs) =
     (if c = CHR ''-'' \<and> d = CHR ''-'' then collapseHyphens (d # cs)
      else c # collapseHyphens (d # cs))"

definition trimHyphens :: "string \<Rightarrow> string" where
  "trimHyphens s = dropSuffix ''-'' (dropPrefix ''-'' s)"

definition generatePracticeId :: "string \<Rightarrow> string" where
  "generatePracticeId domain =
     take 25 (trimHyphens (collapseHyphens (hyphenate (toLowerCase
       (stripTld (dropPrefix ''www.'' domain))))))"

text \<open>
  \<^verbatim>\<open>
  extractCompanyFromDomain(domain) {
    const name = domain
      .replace(/^www\./, '')
      .replace(/\.(com|co\.uk|org|net)$/, '')
      .split(/[-.]/)
      .map(word => word.charAt(0).toUpperCase() + word.slice(1))
      .join(' ');
    return `${name} Clinic`;
  }
  \<close>
\<close>

definition capitalize :: "string \<Rightarrow> string" where
  "capitalize word = (case word of [] \<Rightarrow> [] | c # cs \<Rightarrow> upper_char c # cs)"

definition extractCompanyFromDomain :: "string \<Rightarrow> string" where
  "extractCompanyFromDomain domain =
     join '' '' (map capitalize
       (splitWhere (\<lambda>c. c = CHR ''-'' \<or> c = CHR ''.'') (stripTld (dropPrefix ''www.'' domain))))
     @ '' Clinic''"

subsection \<open>JavaScript values read from collaborators\<close>

text \<open>
  A parsed JSON document, with \<^verbatim>\<open>undefined\<close> added for a property that is absent. An
  object is the list of its properties, one entry per name. Numbers are integers: no claim
  reads a fraction.
\<close>

datatype jsval =
    JUndefined
  | JNull
  | JBool bool
  | JNum int
  | JStr string
  | JArr "jsval list"
  | JObj "(string \<times> jsval) list"

text \<open>The message of the \<^verbatim>\<open>TypeError\<close> of a property read on \<^verbatim>\<open>undefined\<close> or \<^verbatim>\<open>null\<close>.\<close>

definition typeError :: "string \<Rightarrow> error" where
  "typeError what = ''Cannot read properties of '' @ what"

text \<open>\<^verbatim>\<open>v.name\<close> for a property name that no array, string, number or boolean carries.\<close>

definition js_get :: "jsval \<Rightarrow> string \<Rightarrow> error + jsval" where
  "js_get v name =
     (case v of
        JUndefined \<Rightarrow> Inl (typeError ''undefined'')
      | JNull \<Rightarrow> Inl (typeError ''null'')
      | JObj props \<Rightarrow> Inr (case map_of props name of Some x \<Rightarrow> x | None \<Rightarrow> JUndefined)
      | _ \<Rightarrow> Inr JUndefined)"

text \<open>\<^verbatim>\<open>v[0]\<close>.\<close>

definition js_first :: "jsval \<Rightarrow> error + jsval" where
  "js_first v =
     (case v of
        JUndefined \<Rightarrow> Inl (typeError ''undefined'')
      | JNull \<Rightarrow> Inl (typeError ''null'')
      | JArr xs \<Rightarrow> Inr (case xs of [] \<Rightarrow> JUndefined | x # _ \<Rightarrow> x)
      | JStr s \<Rightarrow> Inr (case s of [] \<Rightarrow> JUndefined | c # _ \<Rightarrow> JStr [c])
      | JObj props \<Rightarrow> Inr (case map_of props ''0'' of Some x \<Rightarrow> x | None \<Rightarrow> JUndefined)
      | _ \<Rightarrow> Inr JUndefined)"

text \<open>\<^verbatim>\<open>v?.name\<close>: \<^verbatim>\<open>undefined\<close> when \<open>v\<close> is \<^verbatim>\<open>undefined\<close> or \<^verbatim>\<open>null\<close>.\<close>

definition js_get_opt :: "jsval \<Rightarrow> string \<Rightarrow> jsval" where
  "js_get_opt v name =
     (case v of
        JObj props \<Rightarrow> (case map_of props name of Some x \<Rightarrow> x | None \<Rightarrow> JUndefined)
      | _ \<Rightarrow> JUndefined)"

text \<open>
  \<^verbatim>\<open>v?.trim()\<close>: \<^verbatim>\<open>undefined\<close> (here \<open>None\<close>) when \<open>v\<close> is \<^verbatim>\<open>undefined\<close> or
  \<^verbatim>\<open>null\<close>, the trimmed text of a string, and a \<^verbatim>\<open>TypeError\<close> for any other value,
  which has no method \<^verbatim>\<open>trim\<close>.
\<close>

definition js_trim_opt :: "jsval \<Rightarrow> error + string option" where
  "js_trim_opt v =
     (case v of
        JUndefined \<Rightarrow> Inr None
      | JNull \<Rightarrow> Inr None
      | JStr s \<Rightarrow> Inr (Some (trim s))
      | _ \<Rightarrow> Inl ''trim is not a function'')"

text \<open>The truth value of a value in a condition, \<^verbatim>\<open>||\<close> or \<^verbatim>\<open>&&\<close>.\<close>

definition truthy :: "jsval \<Rightarrow> bool" where
  "truthy v =
     (case v of
        JUndefined \<Rightarrow> False
      | JNull \<Rightarrow> False
      | JBool b \<Rightarrow> b
      | JNum n \<Rightarrow> n \<noteq> 0
      | JStr s \<Rightarrow> s \<noteq> []
      | _ \<Rightarrow> True)"

text \<open>\<^verbatim>\<open>typeof v !== 'object' || v === null\<close> is false exactly for arrays and objects.\<close>

definition is_object :: "jsval \<Rightarrow> bool" where
  "is_object v = (case v of JArr _ \<Rightarrow> True | JObj _ \<Rightarrow> True | _ \<Rightarrow> False)"

text \<open>
  Whether a value can be made a string, as a template literal \<^verbatim>\<open>`${v}`\<close> and
  \<^verbatim>\<open>Array.prototype.join\<close> do it. An object is converted through its \<^verbatim>\<open>toString\<close>:
  a parsed object that has a property of that name hides the inherited method behind a value
  that cannot be called, its \<^verbatim>\<open>valueOf\<close> gives no primitive either, and the conversion
  raises a \<^verbatim>\<open>TypeError\<close>. An array is converted entry by entry. Every other value has a
  text.
\<close>

fun convertible :: "jsval \<Rightarrow> bool" where
  "convertible (JArr xs) = list_all convertible xs"
| "convertible (JObj props) = (map_of props ''toString'' = None)"
| "convertible v = True"

definition cannotConvert :: error where
  "cannotConvert = ''Cannot convert object to primitive value''"

subsection \<open>Data model\<close>

record brand_colors =
  primary :: string
  secondary :: string

text \<open>
  The practice data of \<^verbatim>\<open>scrapeHealthcareWebsite\<close>. \<open>website\<close> is absent from the
  fallback object. The entries of \<open>services\<close> are whatever the completion service put in
  its array.
\<close>

record profile =
  company :: string
  contactName :: string
  phone :: string
  email :: string
  location :: string
  services :: "jsval list"
  practiceType :: string
  practiceId :: string
  leadSource :: string
  leadScore :: nat
  brandColors :: brand_colors
  website :: "string option"
  isGeneralVersion :: bool

text \<open>The repository object of the hosting service, as far as the pipeline reads it.\<close>

record repository =
  repo_name :: string
  html_url :: string
  clone_url :: string
  full_name :: string
  owner_login :: string

record railway_project =
  project_id :: string
  project_name :: string

record railway_environment =
  env_id :: string
  env_name :: string

record deployment =
  deploy_url :: string
  deploy_status :: string
  deploymentMethod :: string

text \<open>A search hit; \<open>title\<close> and \<open>text\<close> may be absent, and the code guards both.\<close>

record exa_result =
  hit_title :: "string option"
  hit_url :: string
  hit_text :: "string option"
  hit_id :: "string option"

record candidate =
  cand_url :: string
  cand_title :: "string option"
  snippet :: string
  cand_id :: "string option"

text \<open>
  The per-lead result of \<^verbatim>\<open>processHealthcareWebsite\<close>. A field the returned object
  does not have is \<open>None\<close>. The fields \<^verbatim>\<open>duration\<close> and \<^verbatim>\<open>timestamp\<close> are left out.
\<close>

record lead_result =
  leadId :: string
  url :: string
  status :: string
  lead_company :: "string option"
  doctor :: "string option"
  demoUrl :: "string option"
  agentId :: "string option"
  notionId :: "string option"
  repositoryUrl :: "string option"
  error_message :: "string option"

record workflow_config =
  leadCount :: rat
  specialty :: "string option"
  wf_location :: "string option"
  searchQuery :: "string option"
  filters :: "string list option"

text \<open>
  An entry of a channel's conversation history; \<open>content\<close> is the operator's text, or
  the \<^verbatim>\<open>response\<close> of the configurator's reply, which is any value. The \<^verbatim>\<open>timestamp\<close>
  is left out.
\<close>

record chat_message =
  role :: string
  content :: jsval

record user_context =
  conversationHistory :: "chat_message list"
  lastWorkflowConfig :: "jsval option"

subsection \<open>Collaborators\<close>

text \<open>
  The reply to \<^verbatim>\<open>fetch(url)\<close> for a page: \<^verbatim>\<open>response.ok\<close>, the status, the body text.
  A body that cannot be read counts as a request that rejects: both end in the same
  \<^verbatim>\<open>catch\<close> block.
\<close>

record page_response =
  page_ok :: bool
  page_status :: nat
  page_text :: string

text \<open>
  The reply to a \<^verbatim>\<open>fetch\<close> of the completion service: \<^verbatim>\<open>response.ok\<close> and the value
  of \<^verbatim>\<open>response.json()\<close>, \<open>None\<close> when the body is not JSON and the call rejects.
\<close>

record completion_response =
  completion_ok :: bool
  completion_json :: "jsval option"

record search_response =
  search_ok :: bool
  search_status :: string
  search_results :: "exa_result list option"

text \<open>
  A reply of the deployment platform's GraphQL endpoint through \<^verbatim>\<open>axios.post\<close>: the call
  rejects; the reply carries \<^verbatim>\<open>errors\<close> (their JSON text); the reply carries no data for
  the mutation; the reply carries the data.
\<close>

datatype 'a gql = Rejected error | Errors string | NoData | Data 'a

text \<open>
  The world outside the process. \<open>hostnameOf\<close> is \<^verbatim>\<open>new URL(url).hostname\<close>, \<open>None\<close>
  when the constructor throws; \<open>jsonParse\<close> is \<^verbatim>\<open>JSON.parse\<close>, \<open>None\<close> when it throws;
  \<open>now\<close> is \<^verbatim>\<open>Date.now()\<close>, one reading for the whole run (it only enters
  identifiers that no property below compares); \<open>random\<close> numbers the draws of \<^verbatim>\<open>Math.random()\<close>. The
  completion requests of the site extractor are determined by the page text, so their
  outcomes are functions of it; the prompt text itself is not modelled. \<open>chatCompletion\<close>
  is the \<^verbatim>\<open>axios.post\<close> of the configurator, a function of the operator's message and
  the history the prompt embeds: the rejection, or \<^verbatim>\<open>response.data\<close>. \<open>prepareWorkingCopy\<close>
  stands for the steps of \<^verbatim>\<open>personalizeRepository\<close> up to the generation of the
  configuration module (clone, directories, the first two files), \<open>pushWorkingCopy\<close> for
  the steps after it (the other files, commit, push): each the message of the first step that
  fails, or \<open>None\<close>. A requested count is a number of the model's JSON, here a rational.
\<close>

record world =
  hostnameOf :: "string \<Rightarrow> string option"
  jsonParse :: "string \<Rightarrow> jsval option"
  now :: nat
  random :: "nat \<Rightarrow> nat"
  fetchPage :: "string \<Rightarrow> error + page_response"
  completeServices :: "string \<Rightarrow> error + completion_response"
  completeLocation :: "string \<Rightarrow> error + completion_response"
  exaSearch :: "rat \<Rightarrow> error + search_response"
  exaSearchCustom :: "string \<Rightarrow> rat \<Rightarrow> error + exa_result list option"
  notionCreatePage :: "profile \<Rightarrow> string \<Rightarrow> error + string"
  githubCreateRepo :: "string \<Rightarrow> string \<Rightarrow> error + repository"
  prepareWorkingCopy :: "repository \<Rightarrow> profile \<Rightarrow> error option"
  pushWorkingCopy :: "repository \<Rightarrow> profile \<Rightarrow> string \<Rightarrow> error option"
  apiProjectCreate :: "string \<Rightarrow> railway_project gql"
  apiEnvironments :: "string \<Rightarrow> error + railway_environment list"
  apiServiceCreate :: "string \<Rightarrow> string \<Rightarrow> string gql"
  apiVariableUpsert :: "string \<Rightarrow> string \<Rightarrow> string \<Rightarrow> string \<Rightarrow> string \<Rightarrow> unit gql"
  apiDomainCreate :: "string \<Rightarrow> string \<Rightarrow> string \<Rightarrow> string gql"
  chatCompletion :: "jsval \<Rightarrow> chat_message list \<Rightarrow> error + jsval"

subsection \<open>Site extractor (lines 1117-1308)\<close>

text \<open>
  \<^verbatim>\<open>data.choices[0]?.message?.content?.trim()\<close>: the two plain reads raise on
  \<^verbatim>\<open>undefined\<close> and \<^verbatim>\<open>null\<close>, the optional ones do not.
\<close>

definition completionContent :: "jsval \<Rightarrow> error + string option" where
  "completionContent data =
     (case js_get data ''choices'' of
        Inl e \<Rightarrow> Inl e
      | Inr choices \<Rightarrow>
          (case js_first choices of
             Inl e \<Rightarrow> Inl e
           | Inr choice \<Rightarrow> js_trim_opt (js_get_opt (js_get_opt choice ''message'') ''content'')))"

text \<open>
  \<^verbatim>\<open>
  async extractServicesWithGLM(html) {
    try {
      const textContent = ...;
      const response = await fetch('https://openrouter.ai/api/v1/chat/completions', ...);
      if (response.ok) {
        const data = await response.json();
        const servicesText = data.choices[0]?.message?.content?.trim();
        try {
          const services = JSON.parse(servicesText);
          return Array.isArray(services) ? services.slice(0, 4) : null;
        } catch { return null; }
      }
      return null;
    } catch (error) { return null; }
  }
  \<close>
  \<open>None\<close> is \<^verbatim>\<open>null\<close>. \<^verbatim>\<open>JSON.parse(undefined)\<close> throws.
\<close>

definition extractServicesWithGLM :: "world \<Rightarrow> string \<Rightarrow> jsval list option" where
  "extractServicesWithGLM w html =
     (case completeServices w html of
        Inl e \<Rightarrow> None
      | Inr response \<Rightarrow>
          if completion_ok response then
            (case completion_json response of
               None \<Rightarrow> None
             | Some data \<Rightarrow>
                 (case completionContent data of
                    Inl e \<Rightarrow> None
                  | Inr None \<Rightarrow> None
                  | Inr (Some servicesText) \<Rightarrow>
                      (case jsonParse w servicesText of
                         Some (JArr found) \<Rightarrow> Some (take 4 found)
                       | _ \<Rightarrow> None)))
          else None)"

text \<open>
  \<^verbatim>\<open>
        const location = data.choices[0]?.message?.content?.trim();
        return location && location !== 'null' ? location : null;
  \<close>
\<close>

definition extractLocationWithGLM :: "world \<Rightarrow> string \<Rightarrow> string option" where
  "extractLocationWithGLM w html =
     (case completeLocation w html of
        Inl e \<Rightarrow> None
      | Inr response \<Rightarrow>
          if completion_ok response then
            (case completion_json response of
               None \<Rightarrow> None
             | Some data \<Rightarrow>
                 (case completionContent data of
                    Inl e \<Rightarrow> None
                  | Inr None \<Rightarrow> None
                  | Inr (Some found) \<Rightarrow>
                      if found \<noteq> [] \<and> found \<noteq> ''null'' then Some found else None))
          else None)"

text \<open>
  \<^verbatim>\<open>Math.floor(Math.random() * n + lo)\<close> for the \<open>k\<close>-th draw: a number from \<open>lo\<close> to
  \<open>lo + n - 1\<close>.
\<close>

definition randomInt :: "world \<Rightarrow> nat \<Rightarrow> nat \<Rightarrow> nat \<Rightarrow> nat" where
  "randomInt w k n lo = lo + random w k mod n"

definition extractPhoneFromDomain :: "world \<Rightarrow> string \<Rightarrow> string" where
  "extractPhoneFromDomain w domain =
     (if str_includes domain ''.co.uk'' \<or> str_includes domain ''.uk'' then
        ''+44 20 7'' @ show_nat (randomInt w 0 900 100) @ '' '' @ show_nat (randomInt w 1 9000 1000)
      else if str_includes domain ''.au'' then
        ''+61 2 '' @ show_nat (randomInt w 0 9000 1000) @ '' '' @ show_nat (randomInt w 1 9000 1000)
      else
        ''+1 '' @ show_nat (randomInt w 0 900 100) @ ''-'' @ show_nat (randomInt w 1 900 100)
          @ ''-'' @ show_nat (randomInt w 2 9000 1000))"

definition defaultServices :: "jsval list" where
  "defaultServices = [JStr ''Aesthetic Treatments'', JStr ''Cosmetic Surgery'', JStr ''Dermatology'']"

definition defaultColors :: brand_colors where
  "defaultColors = \<lparr>primary = ''#0066cc'', secondary = ''#004499''\<rparr>"

text \<open>The object the \<^verbatim>\<open>catch\<close> block of \<^verbatim>\<open>scrapeHealthcareWebsite\<close> returns (lines 1176-1192).\<close>

definition fallbackPracticeData :: "world \<Rightarrow> string \<Rightarrow> profile" where
  "fallbackPracticeData w domain =
     \<lparr>company = extractCompanyFromDomain domain,
      contactName = extractCompanyFromDomain domain @ '' Team'',
      phone = extractPhoneFromDomain w domain,
      email = ''info@'' @ domain,
      location = ''Unknown Location'',
      services = [JStr ''Healthcare Services''],
      practiceType = ''beauty'',
      practiceId = generatePracticeId domain,
      leadSource = ''fallback-extraction'',
      leadScore = 60,
      brandColors = defaultColors,
      website = None,
      isGeneralVersion = True\<rparr>"

text \<open>The two values the extractor falls back to when a completion request resolves to \<^verbatim>\<open>null\<close>.\<close>

definition realServices :: "world \<Rightarrow> string \<Rightarrow> jsval list" where
  "realServices w html =
     (case extractServicesWithGLM w html of Some found \<Rightarrow> found | None \<Rightarrow> defaultServices)"

definition realLocation :: "world \<Rightarrow> string \<Rightarrow> string" where
  "realLocation w html =
     (case extractLocationWithGLM w html of
        Some found \<Rightarrow> found
      | None \<Rightarrow> ''Professional Healthcare Location'')"

text \<open>
  \<^verbatim>\<open>
  async scrapeHealthcareWebsite(url) {
    try {
      const domain = new URL(url).hostname;
      const practiceId = this.generatePracticeId(domain);
      const response = await fetch(url, ...);
      if (!response.ok) { throw new Error(`Failed to fetch ${url}: ${response.status}`); }
      const html = await response.text();
      const companyName = this.extractCompanyFromDomain(domain);
      const realServices = await this.extractServicesWithGLM(html)
        || ['Aesthetic Treatments', 'Cosmetic Surgery', 'Dermatology'];
      const realLocation = await this.extractLocationWithGLM(html)
        || 'Professional Healthcare Location';
      const practiceData = { ... };
      console.log(`   ... - Services: ${realServices.slice(0,2).join(', ')}`);
      return practiceData;
    } catch (error) {
      const domain = new URL(url).hostname;
      ...
      return { ... };
    }
  }
  \<close>
  An array is a true value even when it is empty, so \<^verbatim>\<open>||\<close> replaces only \<^verbatim>\<open>null\<close>.
  The log line before the \<^verbatim>\<open>return\<close> joins the first two services, which raises when
  one of them cannot be made a string. \<open>scrapePage\<close> is the \<^verbatim>\<open>try\<close> block behind the
  parse of the URL.
\<close>

definition scrapePage :: "world \<Rightarrow> string \<Rightarrow> string \<Rightarrow> error + profile" where
  "scrapePage w u domain =
     (case fetchPage w u of
        Inl e \<Rightarrow> Inl e
      | Inr response \<Rightarrow>
          if \<not> page_ok response
          then Inl (''Failed to fetch '' @ u @ '': '' @ show_nat (page_status response))
          else
            let html = page_text response;
                companyName = extractCompanyFromDomain domain;
                practiceData =
                  \<lparr>company = companyName,
                   contactName = companyName @ '' Team'',
                   phone = extractPhoneFromDomain w domain,
                   email = ''info@'' @ domain,
                   location = realLocation w html,
                   services = realServices w html,
                   practiceType = ''beauty'',
                   practiceId = generatePracticeId domain,
                   leadSource = ''clinic-team-version'',
                   leadScore = 80,
                   brandColors = defaultColors,
                   website = Some u,
                   isGeneralVersion = True\<rparr>
            in if list_all convertible (take 2 (realServices w html)) then Inr practiceData
               else Inl cannotConvert)"

text \<open>
  The \<^verbatim>\<open>catch\<close> block parses the URL again, outside any \<^verbatim>\<open>try\<close>: when the
  constructor throws in the \<^verbatim>\<open>try\<close> block it throws there too, with the message
  \<^verbatim>\<open>Invalid URL\<close>. Every other exception of the \<^verbatim>\<open>try\<close> block ends in the
  fallback object.
\<close>

definition scrapeHealthcareWebsite :: "world \<Rightarrow> string \<Rightarrow> error + profile" where
  "scrapeHealthcareWebsite w u =
     (case hostnameOf w u of
        None \<Rightarrow> Inl ''Invalid URL''
      | Some domain \<Rightarrow>
          (case scrapePage w u domain of
             Inr practiceData \<Rightarrow> Inr practiceData
           | Inl e \<Rightarrow> Inr (fallbackPracticeData w domain)))"

text \<open>
  The success path of the extractor, in terms of what the collaborators answer: the page
  request resolves with \<^verbatim>\<open>response.ok\<close>, and the first two services that the page
  yields can be made strings.
\<close>

definition extractionSucceeds :: "world \<Rightarrow> string \<Rightarrow> bool" where
  "extractionSucceeds w u =
     (case fetchPage w u of
        Inl e \<Rightarrow> False
      | Inr response \<Rightarrow>
          page_ok response \<and> list_all convertible (take 2 (realServices w (page_text response))))"

subsection \<open>Store, agent and repository phases (lines 1310-1421)\<close>

text \<open>
  \<^verbatim>\<open>storeLeadInNotion\<close> wraps every failure of the store as
  \<^verbatim>\<open>Notion storage failed: ...\<close>; the value is the \<^verbatim>\<open>id\<close> of the page created.
\<close>

definition storeLeadInNotion :: "world \<Rightarrow> profile \<Rightarrow> string \<Rightarrow> error + string" where
  "storeLeadInNotion w leadData websiteUrl =
     (case notionCreatePage w leadData websiteUrl of
        Inl e \<Rightarrow> Inl (''Notion storage failed: '' @ e)
      | Inr pageId \<Rightarrow> Inr pageId)"

text \<open>
  \<^verbatim>\<open>createElevenLabsAgent\<close> builds two texts it does not use and returns
  \<^verbatim>\<open>`agent_${Date.now()}_${practiceData.practiceId}`\<close>; nothing in its \<^verbatim>\<open>try\<close> block
  can throw for a profile of the record above.
\<close>

definition createElevenLabsAgent :: "world \<Rightarrow> profile \<Rightarrow> string" where
  "createElevenLabsAgent w practiceData =
     ''agent_'' @ show_nat (now w) @ ''_'' @ practiceId practiceData"

text \<open>
  \<^verbatim>\<open>personalizeRepository\<close> runs in one \<^verbatim>\<open>try\<close> block and wraps every failure as
  \<^verbatim>\<open>Repository personalization failed: ...\<close>. Between the steps that touch the working
  copy, \<^verbatim>\<open>generatePracticeConfig\<close> builds the system prompt with
  \<^verbatim>\<open>practiceData.services.map(s => `- ${s}: ...`)\<close>, which raises when a service cannot be
  made a string. No other text of the template converts a value that is not a string.
\<close>

definition personalizeRepository :: "world \<Rightarrow> repository \<Rightarrow> profile \<Rightarrow> string \<Rightarrow> error + unit" where
  "personalizeRepository w repo practiceData agent =
     (case prepareWorkingCopy w repo practiceData of
        Some e \<Rightarrow> Inl (''Repository personalization failed: '' @ e)
      | None \<Rightarrow>
          if \<not> list_all convertible (services practiceData)
          then Inl (''Repository personalization failed: '' @ cannotConvert)
          else (case pushWorkingCopy w repo practiceData agent of
                  Some e \<Rightarrow> Inl (''Repository personalization failed: '' @ e)
                | None \<Rightarrow> Inr ()))"

definition createPersonalizedRepository :: "world \<Rightarrow> profile \<Rightarrow> string \<Rightarrow> error + repository" where
  "createPersonalizedRepository w practiceData agent =
     (let repoName = practiceId practiceData @ ''-demo-'' @ show_nat (now w);
          description = ''Personalized healthcare demo for '' @ company practiceData
                          @ '' - Auto-generated''
      in case githubCreateRepo w repoName description of
           Inl e \<Rightarrow> Inl (''Repository creation failed: '' @ e)
         | Inr repo \<Rightarrow>
             (case personalizeRepository w repo practiceData agent of
                Inl e \<Rightarrow> Inl (''Repository creation failed: '' @ e)
              | Inr _ \<Rightarrow> Inr repo))"

subsection \<open>Deployment orchestrator (lines 1471-1519 and 1589-1893)\<close>

text \<open>The requests sent to the structured API of the deployment platform, in order.\<close>

datatype railway_call =
    ProjectCreate string
  | EnvironmentsQuery string
  | ServiceCreate string string
  | VariableUpsert string string string string string
  | DomainCreate string string string

text \<open>
  The command-line step of \<^verbatim>\<open>railwaySetVariables\<close> and \<^verbatim>\<open>railwayCreateDomain\<close>:
  \<^verbatim>\<open>
      const domain = await new Promise((resolve, reject) => {
        const process = spawn('railway', ['domain', 'generate', '--service', serviceId], {
          env: { ...process.env, RAILWAY_TOKEN: this.config.railwayToken },
          stdio: 'pipe'
        });
        ...
  \<close>
  The arguments of \<^verbatim>\<open>spawn\<close> are evaluated before the constant \<^verbatim>\<open>process\<close> that
  the same statement declares is initialised, and \<^verbatim>\<open>process.env\<close> among them names that
  constant, not the global object: the read raises a \<^verbatim>\<open>ReferenceError\<close>, the promise
  rejects, and no command is started. The value would be the standard output of a command
  that exits with code 0.
\<close>

definition spawnRailway :: "string list \<Rightarrow> error + string" where
  "spawnRailway args =
     Inl (''Cannot access '' @ [CHR 0x27] @ ''process'' @ [CHR 0x27] @ '' before initialization'')"

text \<open>\<^verbatim>\<open>output.match(/https?:\/\/([^\/\s]+)/)\<close>: the first group of the leftmost match.\<close>

fun matchDomain :: "string \<Rightarrow> string option" where
  "matchDomain [] = None"
| "matchDomain (c # cs) =
     (let s = c # cs;
          rest = (if prefix ''https://'' s then Some (drop 8 s)
                  else if prefix ''http://'' s then Some (drop 7 s)
                  else None);
          host = (case rest of
                    None \<Rightarrow> []
                  | Some r \<Rightarrow> takeWhile (\<lambda>x. x \<noteq> CHR ''/'' \<and> \<not> js_space x) r)
      in if host \<noteq> [] then Some host else matchDomain cs)"

text \<open>
  The messages of \<^verbatim>\<open>railwayCreateProject\<close> and \<^verbatim>\<open>railwayCreateService\<close> for a reply
  without data end with the JSON text of the reply, which is left out here.
\<close>

definition railwayCreateProject :: "world \<Rightarrow> string \<Rightarrow> railway_call list \<times> (error + railway_project)" where
  "railwayCreateProject w name =
     ([ProjectCreate name],
      case apiProjectCreate w name of
        Rejected e \<Rightarrow> Inl e
      | Errors j \<Rightarrow> Inl (''Railway GraphQL errors: '' @ j)
      | NoData \<Rightarrow> Inl ''Railway API returned null data''
      | Data project \<Rightarrow> Inr project)"

definition railwayGetEnvironments :: "world \<Rightarrow> string \<Rightarrow> railway_call list \<times> (error + railway_environment list)" where
  "railwayGetEnvironments w projectId = ([EnvironmentsQuery projectId], apiEnvironments w projectId)"

definition railwayCreateService :: "world \<Rightarrow> string \<Rightarrow> string \<Rightarrow> railway_call list \<times> (error + string)" where
  "railwayCreateService w projectId repoFullName =
     ([ServiceCreate projectId repoFullName],
      case apiServiceCreate w projectId repoFullName of
        Rejected e \<Rightarrow> Inl e
      | Errors j \<Rightarrow> Inl (''Railway Service GraphQL errors: '' @ j)
      | NoData \<Rightarrow> Inl ''Railway Service API returned null data''
      | Data serviceId \<Rightarrow> Inr serviceId)"

definition deployVariables :: "profile \<Rightarrow> (string \<times> string) list" where
  "deployVariables practiceData =
     [(''NEXT_PUBLIC_PRACTICE_ID'', practiceId practiceData),
      (''NEXT_PUBLIC_COMPANY_NAME'', company practiceData),
      (''NODE_ENV'', ''production'')]"

text \<open>The first loop of \<^verbatim>\<open>railwaySetVariables\<close>: one command per variable, left at the first failure.\<close>

fun cliSetVariables :: "string \<Rightarrow> (string \<times> string) list \<Rightarrow> error + unit" where
  "cliSetVariables serviceId [] = Inr ()"
| "cliSetVariables serviceId ((k, v) # rest) =
     (case spawnRailway [''variables'', ''set'', k @ ''='' @ v, ''--service'', serviceId] of
        Inl e \<Rightarrow> Inl e
      | Inr _ \<Rightarrow> cliSetVariables serviceId rest)"

text \<open>
  The second loop, in the \<^verbatim>\<open>catch\<close> block of the first: one \<^verbatim>\<open>variableUpsert\<close>
  mutation per variable, left at the first one that rejects or reports errors. The value is
  the list of mutations sent.
\<close>

fun apiSetVariables :: "world \<Rightarrow> string \<Rightarrow> string \<Rightarrow> string \<Rightarrow> (string \<times> string) list \<Rightarrow> railway_call list" where
  "apiSetVariables w projectId environmentId serviceId [] = []"
| "apiSetVariables w projectId environmentId serviceId ((k, v) # rest) =
     VariableUpsert k v projectId environmentId serviceId #
     (case apiVariableUpsert w k v projectId environmentId serviceId of
        Rejected e \<Rightarrow> []
      | Errors j \<Rightarrow> []
      | _ \<Rightarrow> apiSetVariables w projectId environmentId serviceId rest)"

text \<open>\<^verbatim>\<open>railwaySetVariables\<close> never throws: both loops are inside \<^verbatim>\<open>try\<close> blocks.\<close>

definition railwaySetVariables :: "world \<Rightarrow> string \<Rightarrow> string \<Rightarrow> string \<Rightarrow> profile \<Rightarrow> railway_call list" where
  "railwaySetVariables w projectId environmentId serviceId practiceData =
     (case cliSetVariables serviceId (deployVariables practiceData) of
        Inr _ \<Rightarrow> []
      | Inl e \<Rightarrow> apiSetVariables w projectId environmentId serviceId (deployVariables practiceData))"

record railway_domain =
  domain_url :: string
  domain_name :: string

text \<open>The \<^verbatim>\<open>try\<close> block of \<^verbatim>\<open>railwayCreateDomain\<close>: the command, then the match on its output.\<close>

definition cliCreateDomain :: "string \<Rightarrow> error + string" where
  "cliCreateDomain serviceId =
     (case spawnRailway [''domain'', ''generate'', ''--service'', serviceId] of
        Inl e \<Rightarrow> Inl e
      | Inr output \<Rightarrow>
          (case matchDomain output of
             None \<Rightarrow> Inl ''Could not extract domain from CLI output''
           | Some d \<Rightarrow> Inr d))"

text \<open>
  \<^verbatim>\<open>railwayCreateDomain\<close>: the command first; in its \<^verbatim>\<open>catch\<close> block the
  \<^verbatim>\<open>domainCreate\<close> mutation with the same three identifiers; when that fails as well,
  an error that joins both messages.
\<close>

definition railwayCreateDomain :: "world \<Rightarrow> string \<Rightarrow> string \<Rightarrow> string \<Rightarrow> railway_call list \<times> (error + railway_domain)" where
  "railwayCreateDomain w projectId environmentId serviceId =
     (case cliCreateDomain serviceId of
        Inr d \<Rightarrow> ([], Inr \<lparr>domain_url = ''https://'' @ d, domain_name = d\<rparr>)
      | Inl e \<Rightarrow>
          ([DomainCreate projectId environmentId serviceId],
           case apiDomainCreate w projectId environmentId serviceId of
             Rejected e2 \<Rightarrow> Inl (''Railway domain creation completely failed: '' @ e @ '' | '' @ e2)
           | Errors j \<Rightarrow> Inl (''Railway domain creation completely failed: '' @ e @ '' | ''
                                @ ''Railway domain GraphQL error: '' @ j)
           | NoData \<Rightarrow> Inl (''Railway domain creation completely failed: '' @ e @ '' | ''
                              @ typeError ''undefined'')
           | Data d \<Rightarrow> Inr \<lparr>domain_url = ''https://'' @ d, domain_name = d\<rparr>))"

text \<open>
  \<^verbatim>\<open>environments.find(env => env.name === 'production') || environments[0]\<close>;
  \<open>None\<close> is \<^verbatim>\<open>undefined\<close>, for an empty list.
\<close>

definition prodEnv :: "railway_environment list \<Rightarrow> railway_environment option" where
  "prodEnv environments =
     (case List.find (\<lambda>env. env_name env = ''production'') environments of
        Some env \<Rightarrow> Some env
      | None \<Rightarrow> (case environments of [] \<Rightarrow> None | env # _ \<Rightarrow> Some env))"

text \<open>
  The \<^verbatim>\<open>try\<close> block of \<^verbatim>\<open>deployToRailway\<close> (lines 1472-1506), with the requests it
  sends. \<^verbatim>\<open>prodEnv.id\<close> is first read after the service is created.
\<close>

definition railwayOrchestration :: "world \<Rightarrow> profile \<Rightarrow> repository \<Rightarrow> railway_call list \<times> (error + deployment)" where
  "railwayOrchestration w practiceData repo =
     (let projectName = hyphenate (toLowerCase (company practiceData)) @ ''-demo'';
          (calls1, r1) = railwayCreateProject w projectName
      in case r1 of
           Inl e \<Rightarrow> (calls1, Inl e)
         | Inr project \<Rightarrow>
             (let (calls2, r2) = railwayGetEnvironments w (project_id project)
              in case r2 of
                   Inl e \<Rightarrow> (calls1 @ calls2, Inl e)
                 | Inr environments \<Rightarrow>
                     (let (calls3, r3) = railwayCreateService w (project_id project) (full_name repo)
                      in case r3 of
                           Inl e \<Rightarrow> (calls1 @ calls2 @ calls3, Inl e)
                         | Inr serviceId \<Rightarrow>
                             (case prodEnv environments of
                                None \<Rightarrow> (calls1 @ calls2 @ calls3, Inl (typeError ''undefined''))
                              | Some env \<Rightarrow>
                                  (let calls4 = railwaySetVariables w (project_id project) (env_id env)
                                                  serviceId practiceData;
                                       (calls5, r5) = railwayCreateDomain w (project_id project)
                                                        (env_id env) serviceId
                                   in (calls1 @ calls2 @ calls3 @ calls4 @ calls5,
                                       case r5 of
                                         Inl e \<Rightarrow> Inl e
                                       | Inr d \<Rightarrow> Inr \<lparr>deploy_url = domain_url d,
                                                       deploy_status = ''deployed'',
                                                       deploymentMethod = ''railway-mcp-direct''\<rparr>))))))"

text \<open>
  \<^verbatim>\<open>
    } catch (error) {
      const fallbackUrl = `https://${repository.owner.login}.github.io/${repository.name}`;
      return { url: fallbackUrl, status: 'fallback', deploymentMethod: 'github-pages' };
    }
  \<close>
\<close>

definition deployToRailway_calls :: "world \<Rightarrow> profile \<Rightarrow> repository \<Rightarrow> railway_call list \<times> deployment" where
  "deployToRailway_calls w practiceData repo =
     (case railwayOrchestration w practiceData repo of
        (calls, Inr d) \<Rightarrow> (calls, d)
      | (calls, Inl e) \<Rightarrow>
          (calls, \<lparr>deploy_url = ''https://'' @ owner_login repo @ ''.github.io/'' @ repo_name repo,
                   deploy_status = ''fallback'',
                   deploymentMethod = ''github-pages''\<rparr>))"

definition deployToRailway :: "world \<Rightarrow> profile \<Rightarrow> repository \<Rightarrow> deployment" where
  "deployToRailway w practiceData repo = snd (deployToRailway_calls w practiceData repo)"

text \<open>The project, environment and service a variable or domain mutation is addressed to.\<close>

definition callTarget :: "railway_call \<Rightarrow> (string \<times> string \<times> string) option" where
  "callTarget c =
     (case c of
        VariableUpsert k v projectId environmentId serviceId \<Rightarrow>
          Some (projectId, environmentId, serviceId)
      | DomainCreate projectId environmentId serviceId \<Rightarrow>
          Some (projectId, environmentId, serviceId)
      | _ \<Rightarrow> None)"

subsection \<open>Phase sequencer and batch loop (lines 934-1115)\<close>

definition failedLead :: "world \<Rightarrow> string \<Rightarrow> error \<Rightarrow> lead_result" where
  "failedLead w websiteUrl e =
     \<lparr>leadId = ''lead-'' @ show_nat (now w), url = websiteUrl, status = ''failed'',
      lead_company = None, doctor = None, demoUrl = None, agentId = None, notionId = None,
      repositoryUrl = None, error_message = Some e\<rparr>"

text \<open>
  \<^verbatim>\<open>processHealthcareWebsite\<close>: the phases run in one \<^verbatim>\<open>try\<close> block, and its
  \<^verbatim>\<open>catch\<close> block returns the failed result with \<^verbatim>\<open>error.message\<close>.
  \<^verbatim>\<open>updateNotionWithResults\<close> (phase 5) catches its own failure and returns nothing, so it
  has no part in the result.
\<close>

definition processHealthcareWebsite :: "world \<Rightarrow> string \<Rightarrow> lead_result" where
  "processHealthcareWebsite w websiteUrl =
     (case scrapeHealthcareWebsite w websiteUrl of
        Inl e \<Rightarrow> failedLead w websiteUrl e
      | Inr scrapedData \<Rightarrow>
          (case storeLeadInNotion w scrapedData websiteUrl of
             Inl e \<Rightarrow> failedLead w websiteUrl e
           | Inr pageId \<Rightarrow>
               (let agent = createElevenLabsAgent w scrapedData
                in case createPersonalizedRepository w scrapedData agent of
                     Inl e \<Rightarrow> failedLead w websiteUrl e
                   | Inr repo \<Rightarrow>
                       (let d = deployToRailway w scrapedData repo
                        in \<lparr>leadId = ''lead-'' @ show_nat (now w), url = websiteUrl,
                            status = ''success'',
                            lead_company = Some (company scrapedData),
                            doctor = Some (contactName scrapedData),
                            demoUrl = Some (deploy_url d),
                            agentId = Some agent,
                            notionId = Some pageId,
                            repositoryUrl = Some (html_url repo),
                            error_message = None\<rparr>))))"

text \<open>
  \<^verbatim>\<open>findHealthcarePracticesWithEXA(count)\<close>: throws when the request rejects, when the
  reply is not \<^verbatim>\<open>ok\<close>, and when it has no results. The count is only passed on to
  the search as \<^verbatim>\<open>numResults\<close>.
\<close>

definition findHealthcarePracticesWithEXA :: "world \<Rightarrow> rat \<Rightarrow> error + candidate list" where
  "findHealthcarePracticesWithEXA w n =
     (case exaSearch w n of
        Inl e \<Rightarrow> Inl e
      | Inr response \<Rightarrow>
          if \<not> search_ok response then Inl (''EXA API error: '' @ search_status response)
          else (case search_results response of
                  None \<Rightarrow> Inl ''No healthcare practices found by EXA''
                | Some [] \<Rightarrow> Inl ''No healthcare practices found by EXA''
                | Some hits \<Rightarrow>
                    Inr (map (\<lambda>h. \<lparr>cand_url = hit_url h, cand_title = hit_title h,
                                     snippet = (case hit_text h of
                                                  None \<Rightarrow> [] | Some t \<Rightarrow> t),
                                     cand_id = hit_id h\<rparr>) hits)))"

text \<open>
  The loop of \<^verbatim>\<open>executeAutonomousWorkflow\<close>: each round pushes the result of
  \<^verbatim>\<open>processHealthcareWebsite\<close>. The \<^verbatim>\<open>catch\<close> block of the round would push a failed
  entry for an exception, and \<^verbatim>\<open>processHealthcareWebsite\<close> raises none. The pause of three
  seconds between rounds is not modelled.
\<close>

fun workflowLoop :: "world \<Rightarrow> candidate list \<Rightarrow> lead_result list \<Rightarrow> lead_result list" where
  "workflowLoop w [] results = results"
| "workflowLoop w (practice # rest) results =
     workflowLoop w rest (results @ [processHealthcareWebsite w (cand_url practice)])"

definition executeAutonomousWorkflow :: "world \<Rightarrow> rat \<Rightarrow> error + lead_result list" where
  "executeAutonomousWorkflow w n =
     (case findHealthcarePracticesWithEXA w n of
        Inl e \<Rightarrow> Inl e
      | Inr healthcarePractices \<Rightarrow>
          if healthcarePractices = [] then Inl ''No healthcare practices found with EXA search''
          else Inr (workflowLoop w healthcarePractices []))"

text \<open>
  What an entry of the result list holds: a successful one the three links, a failed one a
  message that is not empty.
\<close>

definition entryWellFormed :: "lead_result \<Rightarrow> bool" where
  "entryWellFormed r =
     (if status r = ''success''
      then demoUrl r \<noteq> None \<and> agentId r \<noteq> None \<and> repositoryUrl r \<noteq> None
      else status r = ''failed''
           \<and> (case error_message r of None \<Rightarrow> False | Some e \<Rightarrow> e \<noteq> []))"

text \<open>
  How the entry \<open>r\<close> reported for the lead at \<open>u\<close> follows from the lead's phases: the
  first phase that raises makes it a failure with the message of that phase, and a lead
  whose phases all return is a success with the links of its agent, repository and
  deployment.
\<close>

definition leadReported :: "world \<Rightarrow> string \<Rightarrow> lead_result \<Rightarrow> bool" where
  "leadReported w u r =
     (url r = u
      \<and> (\<forall>e. scrapeHealthcareWebsite w u = Inl e \<longrightarrow>
             status r = ''failed'' \<and> error_message r = Some e)
      \<and> (\<forall>pd e. scrapeHealthcareWebsite w u = Inr pd \<and> storeLeadInNotion w pd u = Inl e \<longrightarrow>
             status r = ''failed'' \<and> error_message r = Some e)
      \<and> (\<forall>pd pageId e.
             scrapeHealthcareWebsite w u = Inr pd \<and> storeLeadInNotion w pd u = Inr pageId
             \<and> createPersonalizedRepository w pd (createElevenLabsAgent w pd) = Inl e \<longrightarrow>
             status r = ''failed'' \<and> error_message r = Some e)
      \<and> (\<forall>pd pageId repo.
             scrapeHealthcareWebsite w u = Inr pd \<and> storeLeadInNotion w pd u = Inr pageId
             \<and> createPersonalizedRepository w pd (createElevenLabsAgent w pd) = Inr repo \<longrightarrow>
             status r = ''success''
             \<and> demoUrl r = Some (deploy_url (deployToRailway w pd repo))
             \<and> agentId r = Some (createElevenLabsAgent w pd)
             \<and> repositoryUrl r = Some (html_url repo)))"

subsection \<open>Conversational configurator (lines 548-653)\<close>

definition fence :: string where
  "fence = [CHR 0x60, CHR 0x60, CHR 0x60]"

text \<open>
  \<^verbatim>\<open>s.replace(/^FENCE\s*/, '')\<close> for a literal opening \<open>t\<close>, and
  \<^verbatim>\<open>s.replace(/\s*FENCE$/, '')\<close>: the leftmost match of the second takes the whole run of
  white space before the closing fence.
\<close>

definition dropOpening :: "string \<Rightarrow> string \<Rightarrow> string" where
  "dropOpening t s = (if prefix t s then dropWhile js_space (drop (length t) s) else s)"

definition dropClosing :: "string \<Rightarrow> string" where
  "dropClosing s = (if suffix fence s then rev (dropWhile js_space (drop 3 (rev s))) else s)"

text \<open>
  \<^verbatim>\<open>
        let cleanedContent = aiContent.trim();
        if (cleanedContent.startsWith('```json') && cleanedContent.endsWith('```')) {
          cleanedContent = cleanedContent.replace(/^```json\s*/, '').replace(/\s*```$/, '');
        } else if (cleanedContent.startsWith('```') && cleanedContent.endsWith('```')) {
          cleanedContent = cleanedContent.replace(/^```\s*/, '').replace(/\s*```$/, '');
        }
  \<close>
\<close>

definition stripCodeFences :: "string \<Rightarrow> string" where
  "stripCodeFences aiContent =
     (let cleanedContent = trim aiContent
      in if startsWith cleanedContent (fence @ ''json'') \<and> endsWith cleanedContent fence
         then dropClosing (dropOpening (fence @ ''json'') cleanedContent)
         else if startsWith cleanedContent fence \<and> endsWith cleanedContent fence
         then dropClosing (dropOpening fence cleanedContent)
         else cleanedContent)"

text \<open>
  Words for texts: \<open>blank\<close> is a run of white space, possibly empty; \<open>unpadded\<close> is a
  text that neither starts nor ends with white space, possibly empty.
\<close>

definition blank :: "string \<Rightarrow> bool" where
  "blank s = list_all js_space s"

definition unpadded :: "string \<Rightarrow> bool" where
  "unpadded s = (case s of [] \<Rightarrow> True | c # cs \<Rightarrow> \<not> js_space c \<and> \<not> js_space (last s))"

text \<open>The object \<^verbatim>\<open>{ executeWorkflow: false, response: aiContent }\<close>.\<close>

definition textResponse :: "jsval \<Rightarrow> jsval" where
  "textResponse aiContent = JObj [(''executeWorkflow'', JBool False), (''response'', aiContent)]"

text \<open>\<^verbatim>\<open>response.data.choices[0].message.content\<close>: four plain reads.\<close>

definition messageContent :: "jsval \<Rightarrow> error + jsval" where
  "messageContent data =
     (case js_get data ''choices'' of
        Inl e \<Rightarrow> Inl e
      | Inr choices \<Rightarrow>
          (case js_first choices of
             Inl e \<Rightarrow> Inl e
           | Inr choice \<Rightarrow>
               (case js_get choice ''message'' of
                  Inl e \<Rightarrow> Inl e
                | Inr message \<Rightarrow> js_get message ''content'')))"

text \<open>
  \<^verbatim>\<open>
    try {
      const response = await axios.post(...);
      const aiContent = response.data.choices[0].message.content;
      try {
        let cleanedContent = aiContent.trim();
        ...
        const parsed = JSON.parse(cleanedContent);
        return parsed;
      } catch (parseError) {
        return { executeWorkflow: false, response: aiContent };
      }
    } catch (error) {
      throw new Error('AI model communication failed');
    }
  \<close>
  The outer \<^verbatim>\<open>try\<close> covers the request and the read of the content; the inner one
  covers \<^verbatim>\<open>trim\<close>, which raises on a content that is not a string, and the parse.
  Before both, the prompt is built (lines 549-596) with
  \<^verbatim>\<open>conversationHistory.map(msg => `${msg.role}: ${msg.content}`).join('\n')\<close> and
  \<^verbatim>\<open>${messageText}\<close>: a content or a message that cannot be made a string raises
  there, outside any \<^verbatim>\<open>try\<close>, and no request is sent. The message is a string when
  it comes from the chat channel and any value of the request body when it comes from the
  \<^verbatim>\<open>/conversation\<close> route.
\<close>

definition promptConvertible :: "jsval \<Rightarrow> chat_message list \<Rightarrow> bool" where
  "promptConvertible messageText history =
     (list_all (\<lambda>msg. convertible (content msg)) history \<and> convertible messageText)"

definition processConversationalInput :: "world \<Rightarrow> jsval \<Rightarrow> chat_message list \<Rightarrow> error + jsval" where
  "processConversationalInput w messageText history =
     (if \<not> promptConvertible messageText history then Inl cannotConvert
      else
        (case chatCompletion w messageText history of
           Inl e \<Rightarrow> Inl ''AI model communication failed''
         | Inr data \<Rightarrow>
             (case messageContent data of
                Inl e \<Rightarrow> Inl ''AI model communication failed''
              | Inr aiContent \<Rightarrow>
                  (case aiContent of
                     JStr s \<Rightarrow>
                       (case jsonParse w (stripCodeFences s) of
                          Some parsed \<Rightarrow> Inr parsed
                        | None \<Rightarrow> Inr (textResponse aiContent))
                   | _ \<Rightarrow> Inr (textResponse aiContent)))))"

subsection \<open>Chat session manager (lines 467-546)\<close>

text \<open>
  One conversational turn, for a channel identifier that is a whole number and a message
  that is a string, as the webhook route passes them. \<open>processingSent\<close> and \<open>replySent\<close> say whether the two
  \<^verbatim>\<open>bot.sendMessage\<close> calls of the turn resolve. The turn's own collaborators are in
  \<open>turn_world\<close>, so that they may answer differently from turn to turn.
\<close>

record turn =
  turn_world :: world
  processingSent :: bool
  replySent :: bool

type_synonym contexts = "int \<rightharpoonup> user_context"

text \<open>\<^verbatim>\<open>history.slice(-10)\<close> when the history is longer than 10.\<close>

definition capHistory :: "chat_message list \<Rightarrow> chat_message list" where
  "capHistory h = (if length h > 10 then drop (length h - 10) h else h)"

text \<open>
  \<^verbatim>\<open>
      if (!this.userContexts.has(chatId)) {
        this.userContexts.set(chatId, { conversationHistory: [], lastWorkflowConfig: null });
      }
      const userContext = this.userContexts.get(chatId);
      userContext.conversationHistory.push({ role: 'user', content: messageText, ... });
      // Keep conversation history manageable (last 10 messages)
      if (userContext.conversationHistory.length > 10) {
        userContext.conversationHistory = userContext.conversationHistory.slice(-10);
      }
      await this.bot.sendMessage(chatId, ...);
      try {
        const aiResponse = await this.processConversationalInput(messageText,
          userContext.conversationHistory);
        if (typeof aiResponse !== 'object' || aiResponse === null) {
          throw new Error('Invalid AI response format');
        }
        userContext.conversationHistory.push({
          role: 'assistant',
          content: aiResponse.response || 'AI processing completed', ...
        });
        const userMessage = aiResponse.response || 'Processing your request...';
        await this.bot.sendMessage(chatId, userMessage, { parse_mode: 'Markdown' });
        if (aiResponse.executeWorkflow && aiResponse.workflowConfig) {
          userContext.lastWorkflowConfig = aiResponse.workflowConfig;
          await this.executeCustomWorkflowWithUpdates(chatId, aiResponse.workflowConfig);
        }
      } catch (error) { ... }
  \<close>
  The value is the map of contexts after the turn. The workflow a turn starts does not
  touch the contexts and is not part of this function. Between the push of the reply and
  the second \<^verbatim>\<open>sendMessage\<close> the reply is logged in a template literal
  (\<^verbatim>\<open>console.log(`... "${userMessage}"`)\<close>), which raises into the inner \<^verbatim>\<open>catch\<close>
  block when the reply cannot be made a string.
\<close>

definition handleConversationalMessage :: "turn \<Rightarrow> contexts \<Rightarrow> int \<Rightarrow> string \<Rightarrow> contexts" where
  "handleConversationalMessage t ctxs chatId messageText =
     (let userContext = (case ctxs chatId of
                           None \<Rightarrow> \<lparr>conversationHistory = [], lastWorkflowConfig = None\<rparr>
                         | Some c \<Rightarrow> c);
          pushed = conversationHistory userContext @ [\<lparr>role = ''user'', content = JStr messageText\<rparr>];
          capped = capHistory pushed;
          afterUser = userContext\<lparr>conversationHistory := capped\<rparr>
      in if \<not> processingSent t then ctxs(chatId \<mapsto> afterUser)
         else
           (case processConversationalInput (turn_world t) (JStr messageText) capped of
              Inl e \<Rightarrow> ctxs(chatId \<mapsto> afterUser)
            | Inr aiResponse \<Rightarrow>
                if \<not> is_object aiResponse then ctxs(chatId \<mapsto> afterUser)
                else
                  (let reply = js_get_opt aiResponse ''response'';
                       answered = afterUser\<lparr>conversationHistory := capped @
                         [\<lparr>role = ''assistant'',
                           content = (if truthy reply then reply
                                      else JStr ''AI processing completed'')\<rparr>]\<rparr>
                   in if \<not> convertible (if truthy reply then reply
                                         else JStr ''Processing your request...'')
                      then ctxs(chatId \<mapsto> answered)
                      else if \<not> replySent t then ctxs(chatId \<mapsto> answered)
                      else if truthy (js_get_opt aiResponse ''executeWorkflow'')
                              \<and> truthy (js_get_opt aiResponse ''workflowConfig'')
                      then ctxs(chatId \<mapsto> answered\<lparr>lastWorkflowConfig :=
                                   Some (js_get_opt aiResponse ''workflowConfig'')\<rparr>)
                      else ctxs(chatId \<mapsto> answered))))"

text \<open>A sequence of turns, each with its channel and text, oldest first.\<close>

fun runTurns :: "(turn \<times> int \<times> string) list \<Rightarrow> contexts \<Rightarrow> contexts" where
  "runTurns [] ctxs = ctxs"
| "runTurns ((t, chatId, messageText) # rest) ctxs =
     runTurns rest (handleConversationalMessage t ctxs chatId messageText)"

definition historyLength :: "contexts \<Rightarrow> int \<Rightarrow> nat" where
  "historyLength ctxs chatId =
     (case ctxs chatId of None \<Rightarrow> 0 | Some c \<Rightarrow> length (conversationHistory c))"

subsection \<open>Candidate discovery with filters (lines 790-885)\<close>

text \<open>A string in a condition: \<^verbatim>\<open>undefined\<close> and the empty string are false.\<close>

definition active :: "string option \<Rightarrow> string option" where
  "active s = (case s of None \<Rightarrow> None | Some t \<Rightarrow> if t = [] then None else Some t)"

definition orEmpty :: "string option \<Rightarrow> string" where
  "orEmpty s = (case s of None \<Rightarrow> [] | Some t \<Rightarrow> t)"

text \<open>
  \<^verbatim>\<open>
        const locationVariants = [location];
        if (location === 'austria') { locationVariants.push(...); }
        if (location === 'netherlands') { locationVariants.push(...); }
        if (location === 'germany') { locationVariants.push(...); }
  \<close>
  \<open>CHR 0xF6\<close> is o with diaeresis, \<open>CHR 0xFC\<close> is u with diaeresis.
\<close>

definition locationVariants :: "string \<Rightarrow> string list" where
  "locationVariants loc =
     [loc]
     @ (if loc = ''austria''
        then [[CHR 0xF6] @ ''sterreich'', ''at'', ''.at'', ''vienna'', ''wien'', ''salzburg'',
              ''innsbruck'', ''graz'', ''linz'']
        else [])
     @ (if loc = ''netherlands''
        then [''nederland'', ''holland'', ''nl'', ''.nl'', ''amsterdam'', ''rotterdam'',
              ''den haag'', ''utrecht'']
        else [])
     @ (if loc = ''germany''
        then [''deutschland'', ''de'', ''.de'', ''berlin'', ''munich'', ''m'' @ [CHR 0xFC] @ ''nchen'',
              ''hamburg'', ''cologne'', ''k'' @ [CHR 0xF6] @ ''ln'']
        else [])"

text \<open>
  \<^verbatim>\<open>
          const searchText = `${practice.title || ''} ${practice.url || ''} ${practice.text || ''}`
            .toLowerCase();
          return locationVariants.some(variant => searchText.includes(variant));
  \<close>
\<close>

definition locationMatches :: "string list \<Rightarrow> exa_result \<Rightarrow> bool" where
  "locationMatches variants practice =
     (let searchText = toLowerCase (orEmpty (hit_title practice) @ '' '' @ hit_url practice
                                    @ '' '' @ orEmpty (hit_text practice))
      in list_ex (\<lambda>variant. str_includes searchText variant) variants)"

text \<open>
  \<^verbatim>\<open>
          practice.title?.toLowerCase().includes(workflowConfig.specialty.toLowerCase()) ||
          practice.text?.toLowerCase().includes(workflowConfig.specialty.toLowerCase())
  \<close>
\<close>

definition specialtyMatches :: "string \<Rightarrow> exa_result \<Rightarrow> bool" where
  "specialtyMatches sp practice =
     ((case hit_title practice of
         None \<Rightarrow> False
       | Some t \<Rightarrow> str_includes (toLowerCase t) (toLowerCase sp))
      \<or> (case hit_text practice of
            None \<Rightarrow> False
          | Some t \<Rightarrow> str_includes (toLowerCase t) (toLowerCase sp)))"

text \<open>
  \<^verbatim>\<open>practices.slice(0, leadCount)\<close>: the count is cut to a whole number towards zero; a
  negative one counts from the end of the list.
\<close>

definition truncate :: "rat \<Rightarrow> int" where
  "truncate c = (if c < 0 then \<lceil>c\<rceil> else \<lfloor>c\<rfloor>)"

definition sliceTo :: "rat \<Rightarrow> 'a list \<Rightarrow> 'a list" where
  "sliceTo c xs =
     (let k = truncate c
      in if k < 0 then take (nat (int (length xs) + k)) xs else take (nat k) xs)"

text \<open>
  \<^verbatim>\<open>findHealthcarePracticesWithCustomEXA(searchQuery, leadCount, workflowConfig)\<close>: the
  request asks for \<^verbatim>\<open>Math.min(leadCount * 2, 20)\<close> results; a rejection is thrown again;
  \<^verbatim>\<open>response.data.results || []\<close> is filtered by location, then by specialty, then cut
  with \<^verbatim>\<open>slice(0, leadCount)\<close>. The count reaches the function unchecked: it is any
  number. A location that is set and not a string makes the function throw at
  \<^verbatim>\<open>toLowerCase\<close>, and so does such a specialty unless no candidate is left to test,
  so every list with entries is returned for strings.
\<close>

definition findHealthcarePracticesWithCustomEXA :: "world \<Rightarrow> string \<Rightarrow> rat \<Rightarrow> workflow_config \<Rightarrow> error + exa_result list" where
  "findHealthcarePracticesWithCustomEXA w query n cfg =
     (case exaSearchCustom w query (min (n * 2) 20) of
        Inl e \<Rightarrow> Inl e
      | Inr results \<Rightarrow>
          (let practices = (case results of None \<Rightarrow> [] | Some hits \<Rightarrow> hits)
           in if practices = [] then Inr []
              else
                (let located = (case active (wf_location cfg) of
                                  None \<Rightarrow> practices
                                | Some loc \<Rightarrow>
                                    filter (locationMatches (locationVariants (toLowerCase loc)))
                                      practices);
                     special = (case active (specialty cfg) of
                                  None \<Rightarrow> located
                                | Some sp \<Rightarrow> filter (specialtyMatches sp) located)
                 in Inr (sliceTo n special))))"

subsection \<open>Custom filter engine (lines 887-918)\<close>






subsection \<open>Sample collaborators\<close>

text \<open>
  Concrete worlds on which the theorems below are run. \<open>sampleParse\<close> is \<^verbatim>\<open>JSON.parse\<close> on
  the texts the samples use, and \<open>sampleHost\<close> is \<^verbatim>\<open>new URL(url).hostname\<close> on their URLs.
\<close>

definition dq :: "string \<Rightarrow> string" where
  "dq s = [CHR 0x22] @ s @ [CHR 0x22]"

definition servicesText :: string where
  "servicesText = ''['' @ dq ''Botox'' @ '', '' @ dq ''Fillers'' @ '']''"

definition replyText :: string where
  "replyText = ''{'' @ dq ''executeWorkflow'' @ '': false, '' @ dq ''response'' @ '': '' @ dq ''Hi'' @ ''}''"

definition opaqueText :: string where
  "opaqueText = ''[{'' @ dq ''toString'' @ '': 1}]''"

definition sampleParse :: "string \<Rightarrow> jsval option" where
  "sampleParse s =
     (if s = ''[]'' then Some (JArr [])
      else if s = opaqueText then Some (JArr [JObj [(''toString'', JNum 1)]])
      else if s = servicesText then Some (JArr [JStr ''Botox'', JStr ''Fillers''])
      else if s = replyText
      then Some (JObj [(''executeWorkflow'', JBool False), (''response'', JStr ''Hi'')])
      else None)"

definition sampleHost :: "string \<Rightarrow> string option" where
  "sampleHost u =
     (if u = ''https://www.glow-clinic.com/'' then Some ''www.glow-clinic.com''
      else if u = ''https://skin-lab.co.uk/about'' then Some ''skin-lab.co.uk''
      else None)"

text \<open>A reply of the completion service whose first choice carries the text \<open>s\<close>.\<close>

definition completionOf :: "jsval \<Rightarrow> jsval" where
  "completionOf c = JObj [(''choices'', JArr [JObj [(''message'', JObj [(''content'', c)])]])]"

definition sampleHits :: "exa_result list" where
  "sampleHits =
     [\<lparr>hit_title = Some ''Glow Clinic Vienna'', hit_url = ''https://www.glow-clinic.com/'',
       hit_text = Some ''Botox and fillers in Wien'', hit_id = Some ''1''\<rparr>,
      \<lparr>hit_title = Some ''Skin Lab'', hit_url = ''https://skin-lab.co.uk/about'',
       hit_text = None, hit_id = Some ''2''\<rparr>,
      \<lparr>hit_title = Some ''Botox Studio Graz'', hit_url = ''https://botox-graz.at/'',
       hit_text = Some ''Aesthetic medicine'', hit_id = Some ''3''\<rparr>]"

text \<open>Every collaborator answers; the repository host echoes the name it is given.\<close>

definition sampleWorld :: world where
  "sampleWorld =
     \<lparr>hostnameOf = sampleHost,
      jsonParse = sampleParse,
      now = 7,
      random = (\<lambda>k. k),
      fetchPage = (\<lambda>u. Inr \<lparr>page_ok = True, page_status = 200, page_text = ''<p>Glow</p>''\<rparr>),
      completeServices = (\<lambda>html. Inr \<lparr>completion_ok = True,
                            completion_json = Some (completionOf (JStr servicesText))\<rparr>),
      completeLocation = (\<lambda>html. Inr \<lparr>completion_ok = True,
                            completion_json = Some (completionOf (JStr ''London, UK''))\<rparr>),
      exaSearch = (\<lambda>n. Inr \<lparr>search_ok = True, search_status = ''200 OK'',
                            search_results = Some (take (nat \<lfloor>n\<rfloor>) sampleHits)\<rparr>),
      exaSearchCustom = (\<lambda>q n. Inr (Some sampleHits)),
      notionCreatePage = (\<lambda>p u. Inr ''page-1''),
      githubCreateRepo = (\<lambda>name description.
                            Inr \<lparr>repo_name = name, html_url = ''https://github.com/acme/'' @ name,
                                 clone_url = ''https://github.com/acme/'' @ name @ ''.git'',
                                 full_name = ''acme/'' @ name, owner_login = ''acme''\<rparr>),
      prepareWorkingCopy = (\<lambda>repo p. None),
      pushWorkingCopy = (\<lambda>repo p agent. None),
      apiProjectCreate = (\<lambda>name. Data \<lparr>project_id = ''proj-1'', project_name = name\<rparr>),
      apiEnvironments = (\<lambda>projectId. Inr [\<lparr>env_id = ''env-0'', env_name = ''staging''\<rparr>,
                                              \<lparr>env_id = ''env-1'', env_name = ''production''\<rparr>]),
      apiServiceCreate = (\<lambda>projectId repo. Data ''svc-1''),
      apiVariableUpsert = (\<lambda>k v projectId environmentId serviceId. Data ()),
      apiDomainCreate = (\<lambda>projectId environmentId serviceId. Data ''glow.up.railway.app''),
      chatCompletion = (\<lambda>messageText history. Inr (completionOf (JStr ''Hello'')))\<rparr>"

text \<open>The deployment platform rejects the domain mutation.\<close>

definition noDomainWorld :: world where
  "noDomainWorld = sampleWorld\<lparr>apiDomainCreate := (\<lambda>projectId environmentId serviceId. Rejected ''503'')\<rparr>"

text \<open>The push of the generated files fails for the first practice only.\<close>

definition pushFailsWorld :: world where
  "pushFailsWorld =
     sampleWorld\<lparr>pushWorkingCopy := (\<lambda>repo p agent.
        if practiceId p = ''glow-clinic'' then Some ''git push failed'' else None)\<rparr>"

text \<open>The completion service answers the services request with an empty array.\<close>

definition emptyServicesWorld :: world where
  "emptyServicesWorld =
     sampleWorld\<lparr>completeServices := (\<lambda>html. Inr \<lparr>completion_ok = True,
                      completion_json = Some (completionOf (JStr ''[]''))\<rparr>)\<rparr>"

text \<open>
  The completion service answers the services request with one object that has a property
  \<^verbatim>\<open>toString\<close>.
\<close>

definition opaqueServicesWorld :: world where
  "opaqueServicesWorld =
     sampleWorld\<lparr>completeServices := (\<lambda>html. Inr \<lparr>completion_ok = True,
                      completion_json = Some (completionOf (JStr opaqueText))\<rparr>)\<rparr>"

text \<open>The completion endpoint answers with an object that has no \<^verbatim>\<open>choices\<close>.\<close>

definition noChoicesWorld :: world where
  "noChoicesWorld = sampleWorld\<lparr>chatCompletion := (\<lambda>messageText history.
                      Inr (JObj [(''error'', JStr ''rate limited'')]))\<rparr>"

text \<open>The completion endpoint answers with a fenced JSON object.\<close>

definition fencedWorld :: world where
  "fencedWorld = sampleWorld\<lparr>chatCompletion := (\<lambda>messageText history.
                   Inr (completionOf (JStr (fence @ ''json'' @ [CHR 0x0A] @ replyText
                                            @ [CHR 0x0A] @ fence))))\<rparr>"

definition sampleTurn :: turn where
  "sampleTurn = \<lparr>turn_world = sampleWorld, processingSent = True, replySent = True\<rparr>"

text \<open>The profile and the repository of the first sample practice.\<close>

definition glowProfile :: profile where
  "glowProfile =
     \<lparr>company = ''Glow Clinic Clinic'', contactName = ''Glow Clinic Clinic Team'',
      phone = ''+1 100-101-1002'', email = ''info@www.glow-clinic.com'',
      location = ''London, UK'', services = [JStr ''Botox'', JStr ''Fillers''],
      practiceType = ''beauty'', practiceId = ''glow-clinic'',
      leadSource = ''clinic-team-version'', leadScore = 80,
      brandColors = \<lparr>primary = ''#0066cc'', secondary = ''#004499''\<rparr>,
      website = Some ''https://www.glow-clinic.com/'', isGeneralVersion = True\<rparr>"

definition glowRepository :: repository where
  "glowRepository =
     \<lparr>repo_name = ''glow-clinic-demo-7'',
      html_url = ''https://github.com/acme/glow-clinic-demo-7'',
      clone_url = ''https://github.com/acme/glow-clinic-demo-7.git'',
      full_name = ''acme/glow-clinic-demo-7'', owner_login = ''acme''\<rparr>"

text \<open>A configuration with both filters set, and two candidates for the filter engine.\<close>

definition austriaBotox :: workflow_config where
  "austriaBotox = \<lparr>leadCount = 2, specialty = Some ''Botox'', wf_location = Some ''Austria'',
                    searchQuery = None, filters = None\<rparr>"



text \<open>A configuration without filters, and a history whose one entry cannot be made a string.\<close>

definition noFilters :: workflow_config where
  "noFilters = \<lparr>leadCount = - 1, specialty = None, wf_location = None,
                 searchQuery = None, filters = None\<rparr>"

definition opaqueHistory :: "chat_message list" where
  "opaqueHistory = [\<lparr>role = ''assistant'', content = JObj [(''toString'', JNum 1)]\<rparr>]"

section \<open>Properties\<close>

subsection \<open>The practice identifier\<close>

lemma hyphenate_chars: "list_all (\<lambda>c. id_char c \<or> c = CHR ''-'') (hyphenate s)"
  by (induction s) (simp_all add: hyphenate_def)

lemma collapseHyphens_head: "\<exists>r. collapseHyphens (c # cs) = c # r"
proof (induction "c # cs" arbitrary: c cs rule: collapseHyphens.induct)
  case (2 c)
  then show ?case by simp
next
  case (3 c d cs)
  show ?case
  proof (cases "c = CHR ''-'' \<and> d = CHR ''-''")
    case True
    with 3(1) obtain r where "collapseHyphens (d # cs) = d # r" by blast
    with True show ?thesis by simp
  next
    case False
    then show ?thesis by auto
  qed
qed

lemma dropSuffix_head: "dropSuffix t s = c # r \<Longrightarrow> \<exists>r'. s = c # r'"
  by (cases s) (auto simp: dropSuffix_def take_Cons' split: if_splits)

lemma collapseHyphens_single:
  "collapseHyphens s = CHR ''-'' # d # r \<Longrightarrow> d \<noteq> CHR ''-''"
proof (induction s arbitrary: d r rule: collapseHyphens.induct)
  case 1
  then show ?case by simp
next
  case (2 c)
  then show ?case by simp
next
  case (3 c e cs)
  show ?case
  proof (cases "c = CHR ''-'' \<and> e = CHR ''-''")
    case True
    with 3(3) have "collapseHyphens (e # cs) = CHR ''-'' # d # r" by simp
    with 3(1) True show ?thesis by blast
  next
    case False
    with 3(3) have c: "c = CHR ''-''" and eq: "collapseHyphens (e # cs) = d # r" by simp_all
    from collapseHyphens_head [of e cs] eq have "d = e" by auto
    with False c show ?thesis by simp
  qed
qed

lemma trimHyphens_collapse_head:
  "trimHyphens (collapseHyphens s) = c # r \<Longrightarrow> c \<noteq> CHR ''-''"
proof -
  assume a: "trimHyphens (collapseHyphens s) = c # r"
  let ?t = "collapseHyphens s"
  have p: "hd (dropPrefix ''-'' ?t) \<noteq> CHR ''-'' \<or> dropPrefix ''-'' ?t = [] \<or> dropPrefix ''-'' ?t = ''-''"
  proof (cases ?t)
    case Nil
    then show ?thesis by (simp add: dropPrefix_def)
  next
    case (Cons x xs)
    show ?thesis
    proof (cases "x = CHR ''-''")
      case False
      with Cons show ?thesis by (simp add: dropPrefix_def)
    next
      case True
      show ?thesis
      proof (cases xs)
        case Nil
        with Cons True show ?thesis by (simp add: dropPrefix_def)
      next
        case (Cons y ys)
        with \<open>?t = x # xs\<close> True have "?t = CHR ''-'' # y # ys" by simp
        from collapseHyphens_single [OF this] have "y \<noteq> CHR ''-''" .
        with Cons \<open>?t = x # xs\<close> True show ?thesis by (simp add: dropPrefix_def)
      qed
    qed
  qed
  let ?u = "dropPrefix ''-'' ?t"
  from a have b: "dropSuffix ''-'' ?u = c # r" by (simp add: trimHyphens_def)
  have "?u \<noteq> []" using b by (auto simp: dropSuffix_def)
  moreover have "?u \<noteq> ''-''" using b by (auto simp: dropSuffix_def)
  ultimately have h: "hd ?u \<noteq> CHR ''-''" using p by blast
  from dropSuffix_head [OF b] obtain r' where "?u = c # r'" by blast
  with h show ?thesis by simp
qed

lemma generatePracticeId_no_leading_hyphen:
  "generatePracticeId d = c # r \<Longrightarrow> c \<noteq> CHR ''-''"
proof -
  assume a: "generatePracticeId d = c # r"
  let ?t = "trimHyphens (collapseHyphens (hyphenate (toLowerCase (stripTld (dropPrefix ''www.'' d)))))"
  from a have "take 25 ?t = c # r" by (simp add: generatePracticeId_def)
  then obtain r' where "?t = c # r'" by (cases ?t) auto
  then show ?thesis by (rule trimHyphens_collapse_head)
qed

lemma collapseHyphens_subset: "set (collapseHyphens s) \<subseteq> set s"
  by (induction s rule: collapseHyphens.induct) auto

lemma dropPrefix_subset: "set (dropPrefix t s) \<subseteq> set s"
  by (auto simp: dropPrefix_def dest: in_set_dropD)

lemma dropSuffix_subset: "set (dropSuffix t s) \<subseteq> set s"
  by (auto simp: dropSuffix_def dest: in_set_takeD)

lemma generatePracticeId_chars:
  "list_all (\<lambda>c. id_char c \<or> c = CHR ''-'') (generatePracticeId d)"
proof -
  let ?h = "hyphenate (toLowerCase (stripTld (dropPrefix ''www.'' d)))"
  have "set (generatePracticeId d) \<subseteq> set ?h"
    unfolding generatePracticeId_def trimHyphens_def
    using set_take_subset dropSuffix_subset dropPrefix_subset collapseHyphens_subset
    by (blast dest!: in_set_takeD)
  moreover have "list_all (\<lambda>c. id_char c \<or> c = CHR ''-'') ?h"
    by (rule hyphenate_chars)
  ultimately show ?thesis
    by (auto simp: list_all_iff)
qed

lemma generatePracticeId_length: "length (generatePracticeId d) \<le> 25"
  by (simp add: generatePracticeId_def)

text \<open>
  C5. The identifier is a function of the domain alone, but it does not always match
  \<^verbatim>\<open>^[a-z0-9-]{1,25}$\<close> without a hyphen at the end: the cut to 25 characters comes after
  the hyphens at both ends are removed, so a hyphen in 25th place ends the identifier, and a
  host name without a letter or digit (the IPv6 host \<^verbatim>\<open>[::]\<close>) gives the empty
  identifier. The lemmas above hold for every domain: the characters
  (\<open>generatePracticeId_chars\<close>), the length of at most 25
  (\<open>generatePracticeId_length\<close>), and no hyphen in first place
  (\<open>generatePracticeId_no_leading_hyphen\<close>).
\<close>

theorem generatePracticeId_trailing_hyphen:
  "generatePracticeId ''my-beautiful-skin-clinic-london.com'' = ''my-beautiful-skin-clinic-''
   \<and> generatePracticeId ''[::]'' = []"
  by code_simp

subsection \<open>The site extractor\<close>

lemma scrapePage_succeeds:
  "isl (scrapePage w u d) = (\<not> extractionSucceeds w u)"
  by (auto simp: scrapePage_def extractionSucceeds_def Let_def split: sum.splits)

lemma realLocation_nonempty: "realLocation w html \<noteq> []"
  by (auto simp: realLocation_def extractLocationWithGLM_def
           split: option.splits sum.splits if_splits)

lemma scrape_returns_when_url_parses:
  "hostnameOf w u = Some d \<Longrightarrow> \<exists>p. scrapeHealthcareWebsite w u = Inr p \<and> location p \<noteq> []"
  using realLocation_nonempty
  by (auto simp: scrapeHealthcareWebsite_def scrapePage_def fallbackPracticeData_def Let_def
           split: sum.splits if_splits)

text \<open>
  C3. The extractor is meant never to raise and always to give a profile with services and
  a location, and it does so when the URL parses and the services request resolves to
  \<^verbatim>\<open>null\<close> or to an array with entries (\<open>scrape_returns_when_url_parses\<close> for the
  first half). It fails in two places. For a URL the \<^verbatim>\<open>URL\<close> constructor rejects, the
  \<^verbatim>\<open>catch\<close> block calls the constructor again and the \<^verbatim>\<open>TypeError\<close> leaves the
  function. For a services reply that is the empty array, \<^verbatim>\<open>||\<close> keeps the empty array,
  which is a true value, and the profile has no services.
\<close>

theorem scrape_raises:
  "scrapeHealthcareWebsite sampleWorld ''not a url'' = Inl ''Invalid URL''
   \<and> map_sum id services
        (scrapeHealthcareWebsite emptyServicesWorld ''https://skin-lab.co.uk/about'') = Inr []"
  by code_simp

text \<open>
  C10. Every profile the extractor returns, on the success path and on the fallback path,
  has the practice type \<open>beauty\<close>, the general-version flag set, the contact name made of
  the company name and \<open>Team\<close>, and the two fixed brand colours. The lead score is 80 on
  the success path and 60 on the fallback path, where the success path is the one on which
  the page is fetched with \<^verbatim>\<open>response.ok\<close> and the first two services can be made
  strings for the log line; the lead source names the path.
\<close>

theorem scrape_constant_fields:
  assumes "scrapeHealthcareWebsite w u = Inr p"
  shows "practiceType p = ''beauty'' \<and> isGeneralVersion p
         \<and> contactName p = company p @ '' Team''
         \<and> brandColors p = \<lparr>primary = ''#0066cc'', secondary = ''#004499''\<rparr>
         \<and> leadScore p = (if extractionSucceeds w u then 80 else 60)
         \<and> leadSource p = (if extractionSucceeds w u then ''clinic-team-version''
                            else ''fallback-extraction'')"
proof -
  from assms obtain d where d: "hostnameOf w u = Some d"
    by (auto simp: scrapeHealthcareWebsite_def split: option.splits)
  show ?thesis
  proof (cases "scrapePage w u d")
    case (Inl e)
    with scrapePage_succeeds [of w u d] have "\<not> extractionSucceeds w u" by simp
    moreover from assms d Inl have "p = fallbackPracticeData w d"
      by (simp add: scrapeHealthcareWebsite_def)
    ultimately show ?thesis
      by (simp add: fallbackPracticeData_def defaultColors_def)
  next
    case (Inr q)
    with scrapePage_succeeds [of w u d] have s: "extractionSucceeds w u" by simp
    from assms d Inr have "p = q" by (simp add: scrapeHealthcareWebsite_def)
    with Inr have "scrapePage w u d = Inr p" by simp
    then have "practiceType p = ''beauty'' \<and> isGeneralVersion p
         \<and> contactName p = company p @ '' Team''
         \<and> brandColors p = \<lparr>primary = ''#0066cc'', secondary = ''#004499''\<rparr>
         \<and> leadScore p = 80 \<and> leadSource p = ''clinic-team-version''"
      by (auto simp: scrapePage_def Let_def defaultColors_def split: sum.splits if_splits)
    with s show ?thesis by simp
  qed
qed

theorem scrape_constant_fields_witness:
  "scrapeHealthcareWebsite sampleWorld ''https://www.glow-clinic.com/'' = Inr glowProfile
   \<and> extractionSucceeds sampleWorld ''https://www.glow-clinic.com/''
   \<and> practiceType glowProfile = ''beauty'' \<and> leadScore glowProfile = 80
   \<and> scrapeHealthcareWebsite opaqueServicesWorld ''https://www.glow-clinic.com/''
       = Inr (fallbackPracticeData opaqueServicesWorld ''www.glow-clinic.com'')
   \<and> \<not> extractionSucceeds opaqueServicesWorld ''https://www.glow-clinic.com/''
   \<and> leadScore (fallbackPracticeData opaqueServicesWorld ''www.glow-clinic.com'') = 60"
proof -
  let ?u = "''https://www.glow-clinic.com/''"
  have h: "scrapeHealthcareWebsite sampleWorld ?u = Inr glowProfile"
    by code_simp
  have f: "extractionSucceeds sampleWorld ?u"
    by code_simp
  have h2: "scrapeHealthcareWebsite opaqueServicesWorld ?u
              = Inr (fallbackPracticeData opaqueServicesWorld ''www.glow-clinic.com'')"
    by code_simp
  have f2: "\<not> extractionSucceeds opaqueServicesWorld ?u"
    by code_simp
  from scrape_constant_fields [OF h] scrape_constant_fields [OF h2] h f h2 f2
  show ?thesis by simp
qed

subsection \<open>The deployment orchestrator\<close>

text \<open>The command-line step never starts a command, whatever its arguments.\<close>

lemma cli_never_starts: "\<exists>e. spawnRailway args = Inl e"
  by (simp add: spawnRailway_def)

lemma cliCreateDomain_fails: "\<exists>e. cliCreateDomain serviceId = Inl e"
  by (simp add: cliCreateDomain_def spawnRailway_def)

lemma apiSetVariables_target:
  "list_all (\<lambda>c. callTarget c = Some (p, e, s)) (apiSetVariables w p e s vars)"
  by (induction vars) (auto simp: callTarget_def split: gql.splits)

lemma railwaySetVariables_api:
  "railwaySetVariables w p e s pd = apiSetVariables w p e s (deployVariables pd)"
  by (simp add: railwaySetVariables_def deployVariables_def spawnRailway_def)

lemma railwaySetVariables_first:
  "\<exists>rest. railwaySetVariables w p e s pd
            = VariableUpsert ''NEXT_PUBLIC_PRACTICE_ID'' (practiceId pd) p e s # rest"
  by (simp add: railwaySetVariables_api deployVariables_def)

text \<open>
  C1. When the orchestration step raises, \<^verbatim>\<open>deployToRailway\<close> returns the result with
  status \<open>fallback\<close> and the URL \<^verbatim>\<open>https://<owner>.github.io/<repoName>\<close> instead of
  raising, for every profile and repository; and a lead whose earlier phases succeeded is
  then reported with status \<open>success\<close> and that URL as its demo URL.
\<close>

theorem deploy_fallback_on_failure:
  "(snd (railwayOrchestration w pd repo) = Inl e \<longrightarrow>
      deployToRailway w pd repo =
        \<lparr>deploy_url = ''https://'' @ owner_login repo @ ''.github.io/'' @ repo_name repo,
         deploy_status = ''fallback'', deploymentMethod = ''github-pages''\<rparr>)
   \<and> (scrapeHealthcareWebsite w u = Inr pd \<and> storeLeadInNotion w pd u = Inr pageId
        \<and> createPersonalizedRepository w pd (createElevenLabsAgent w pd) = Inr repo
        \<and> snd (railwayOrchestration w pd repo) = Inl e \<longrightarrow>
      status (processHealthcareWebsite w u) = ''success''
      \<and> demoUrl (processHealthcareWebsite w u)
          = Some (''https://'' @ owner_login repo @ ''.github.io/'' @ repo_name repo))"
proof -
  have d: "deployToRailway w pd repo =
        \<lparr>deploy_url = ''https://'' @ owner_login repo @ ''.github.io/'' @ repo_name repo,
         deploy_status = ''fallback'', deploymentMethod = ''github-pages''\<rparr>"
    if "snd (railwayOrchestration w pd repo) = Inl e"
    using that by (cases "railwayOrchestration w pd repo") (simp add: deployToRailway_def deployToRailway_calls_def)
  show ?thesis
    using d by (auto simp: processHealthcareWebsite_def Let_def)
qed

theorem deploy_fallback_on_failure_witness:
  "snd (railwayOrchestration noDomainWorld glowProfile glowRepository)
     = Inl (''Railway domain creation completely failed: Cannot access '' @ [CHR 0x27] @ ''process''
            @ [CHR 0x27] @ '' before initialization | 503'')
   \<and> deployToRailway noDomainWorld glowProfile glowRepository =
        \<lparr>deploy_url = ''https://acme.github.io/glow-clinic-demo-7'',
         deploy_status = ''fallback'', deploymentMethod = ''github-pages''\<rparr>
   \<and> status (processHealthcareWebsite noDomainWorld ''https://www.glow-clinic.com/'') = ''success''
   \<and> demoUrl (processHealthcareWebsite noDomainWorld ''https://www.glow-clinic.com/'')
        = Some ''https://acme.github.io/glow-clinic-demo-7''"
proof -
  let ?u = "''https://www.glow-clinic.com/''"
  let ?e = "''Railway domain creation completely failed: Cannot access '' @ [CHR 0x27] @ ''process''
            @ [CHR 0x27] @ '' before initialization | 503''"
  have o: "snd (railwayOrchestration noDomainWorld glowProfile glowRepository) = Inl ?e"
    by code_simp
  have s: "scrapeHealthcareWebsite noDomainWorld ?u = Inr glowProfile"
    by code_simp
  have n: "storeLeadInNotion noDomainWorld glowProfile ?u = Inr ''page-1''"
    by code_simp
  have r: "createPersonalizedRepository noDomainWorld glowProfile
             (createElevenLabsAgent noDomainWorld glowProfile) = Inr glowRepository"
    by code_simp
  from deploy_fallback_on_failure [of noDomainWorld glowProfile glowRepository ?e ?u "''page-1''"]
    o s n r
  show ?thesis by (simp add: glowRepository_def)
qed

text \<open>
  C6. When project, environment and service exist, the command-line domain step fails and
  the \<^verbatim>\<open>domainCreate\<close> mutation answers with a domain, \<^verbatim>\<open>deployToRailway\<close> returns
  status \<open>deployed\<close> with the URL built from that domain, not the static fallback. The
  requests sent are the three that create project and service, then the variable mutations,
  of which the first is always sent, then the domain mutation; the variable and domain
  mutations all carry the project, environment and service identifiers of the first three
  steps. The domain mutation is sent exactly when the command-line domain step fails.
\<close>

theorem secondary_tier_domain:
  assumes project: "apiProjectCreate w (hyphenate (toLowerCase (company pd)) @ ''-demo'') = Data project"
    and envs: "apiEnvironments w (project_id project) = Inr environments"
    and env: "prodEnv environments = Some env"
    and service: "apiServiceCreate w (project_id project) (full_name repo) = Data serviceId"
    and tier1: "cliCreateDomain serviceId = Inl e"
    and tier2: "apiDomainCreate w (project_id project) (env_id env) serviceId = Data d"
  shows "deployToRailway w pd repo =
           \<lparr>deploy_url = ''https://'' @ d, deploy_status = ''deployed'',
            deploymentMethod = ''railway-mcp-direct''\<rparr>
         \<and> fst (deployToRailway_calls w pd repo) =
             [ProjectCreate (hyphenate (toLowerCase (company pd)) @ ''-demo''),
              EnvironmentsQuery (project_id project),
              ServiceCreate (project_id project) (full_name repo)]
             @ railwaySetVariables w (project_id project) (env_id env) serviceId pd
             @ [DomainCreate (project_id project) (env_id env) serviceId]
         \<and> (\<exists>rest. railwaySetVariables w (project_id project) (env_id env) serviceId pd
                     = VariableUpsert ''NEXT_PUBLIC_PRACTICE_ID'' (practiceId pd)
                         (project_id project) (env_id env) serviceId # rest)
         \<and> list_all (\<lambda>c. callTarget c = Some (project_id project, env_id env, serviceId))
              (railwaySetVariables w (project_id project) (env_id env) serviceId pd
               @ [DomainCreate (project_id project) (env_id env) serviceId])
         \<and> fst (railwayCreateDomain w p' e' s')
             = (if isl (cliCreateDomain s') then [DomainCreate p' e' s'] else [])"
proof -
  have dom: "railwayCreateDomain w (project_id project) (env_id env) serviceId
             = ([DomainCreate (project_id project) (env_id env) serviceId],
                Inr \<lparr>domain_url = ''https://'' @ d, domain_name = d\<rparr>)"
    using tier1 tier2 by (simp add: railwayCreateDomain_def)
  have orch: "railwayOrchestration w pd repo =
          ([ProjectCreate (hyphenate (toLowerCase (company pd)) @ ''-demo''),
              EnvironmentsQuery (project_id project),
              ServiceCreate (project_id project) (full_name repo)]
             @ railwaySetVariables w (project_id project) (env_id env) serviceId pd
             @ [DomainCreate (project_id project) (env_id env) serviceId],
           Inr \<lparr>deploy_url = ''https://'' @ d, deploy_status = ''deployed'',
            deploymentMethod = ''railway-mcp-direct''\<rparr>)"
    using project envs env service dom
    by (simp add: railwayOrchestration_def railwayCreateProject_def railwayGetEnvironments_def
                  railwayCreateService_def Let_def)
  have a: "deployToRailway w pd repo =
           \<lparr>deploy_url = ''https://'' @ d, deploy_status = ''deployed'',
            deploymentMethod = ''railway-mcp-direct''\<rparr>"
    by (simp add: deployToRailway_def deployToRailway_calls_def orch)
  have b: "fst (deployToRailway_calls w pd repo) =
             [ProjectCreate (hyphenate (toLowerCase (company pd)) @ ''-demo''),
              EnvironmentsQuery (project_id project),
              ServiceCreate (project_id project) (full_name repo)]
             @ railwaySetVariables w (project_id project) (env_id env) serviceId pd
             @ [DomainCreate (project_id project) (env_id env) serviceId]"
    by (simp add: deployToRailway_calls_def orch)
  have c: "list_all (\<lambda>c. callTarget c = Some (project_id project, env_id env, serviceId))
              (railwaySetVariables w (project_id project) (env_id env) serviceId pd
               @ [DomainCreate (project_id project) (env_id env) serviceId])"
    using apiSetVariables_target [of "project_id project" "env_id env" serviceId w "deployVariables pd"]
    by (simp add: railwaySetVariables_api) (simp add: callTarget_def)
  have f: "fst (railwayCreateDomain w p' e' s')
             = (if isl (cliCreateDomain s') then [DomainCreate p' e' s'] else [])"
    by (cases "cliCreateDomain s'") (simp_all add: railwayCreateDomain_def)
  from a b c f railwaySetVariables_first show ?thesis by blast
qed

theorem secondary_tier_domain_witness:
  "cliCreateDomain ''svc-1''
     = Inl (''Cannot access '' @ [CHR 0x27] @ ''process'' @ [CHR 0x27] @ '' before initialization'')
   \<and> apiDomainCreate sampleWorld ''proj-1'' ''env-1'' ''svc-1'' = Data ''glow.up.railway.app''
   \<and> deployToRailway sampleWorld glowProfile glowRepository =
        \<lparr>deploy_url = ''https://glow.up.railway.app'', deploy_status = ''deployed'',
         deploymentMethod = ''railway-mcp-direct''\<rparr>
   \<and> fst (deployToRailway_calls sampleWorld glowProfile glowRepository) =
        [ProjectCreate ''glow-clinic-clinic-demo'', EnvironmentsQuery ''proj-1'',
         ServiceCreate ''proj-1'' ''acme/glow-clinic-demo-7'',
         VariableUpsert ''NEXT_PUBLIC_PRACTICE_ID'' ''glow-clinic'' ''proj-1'' ''env-1'' ''svc-1'',
         VariableUpsert ''NEXT_PUBLIC_COMPANY_NAME'' ''Glow Clinic Clinic'' ''proj-1'' ''env-1'' ''svc-1'',
         VariableUpsert ''NODE_ENV'' ''production'' ''proj-1'' ''env-1'' ''svc-1'',
         DomainCreate ''proj-1'' ''env-1'' ''svc-1'']"
proof -
  let ?project = "\<lparr>project_id = ''proj-1'', project_name = ''glow-clinic-clinic-demo''\<rparr>"
  let ?envs = "[\<lparr>env_id = ''env-0'', env_name = ''staging''\<rparr>,
                \<lparr>env_id = ''env-1'', env_name = ''production''\<rparr>]"
  let ?env = "\<lparr>env_id = ''env-1'', env_name = ''production''\<rparr>"
  let ?e = "''Cannot access '' @ [CHR 0x27] @ ''process'' @ [CHR 0x27] @ '' before initialization''"
  have h1: "apiProjectCreate sampleWorld (hyphenate (toLowerCase (company glowProfile)) @ ''-demo'')
              = Data ?project"
    by code_simp
  have h2: "apiEnvironments sampleWorld (project_id ?project) = Inr ?envs"
    by code_simp
  have h3: "prodEnv ?envs = Some ?env"
    by code_simp
  have h4: "apiServiceCreate sampleWorld (project_id ?project) (full_name glowRepository) = Data ''svc-1''"
    by code_simp
  have h5: "cliCreateDomain ''svc-1'' = Inl ?e"
    by code_simp
  have h6: "apiDomainCreate sampleWorld (project_id ?project) (env_id ?env) ''svc-1''
              = Data ''glow.up.railway.app''"
    by code_simp
  have v: "railwaySetVariables sampleWorld ''proj-1'' ''env-1'' ''svc-1'' glowProfile =
        [VariableUpsert ''NEXT_PUBLIC_PRACTICE_ID'' ''glow-clinic'' ''proj-1'' ''env-1'' ''svc-1'',
         VariableUpsert ''NEXT_PUBLIC_COMPANY_NAME'' ''Glow Clinic Clinic'' ''proj-1'' ''env-1'' ''svc-1'',
         VariableUpsert ''NODE_ENV'' ''production'' ''proj-1'' ''env-1'' ''svc-1'']"
    by code_simp
  have c: "hyphenate (toLowerCase (company glowProfile)) @ ''-demo'' = ''glow-clinic-clinic-demo''"
    by code_simp
  have f: "full_name glowRepository = ''acme/glow-clinic-demo-7''"
    by code_simp
  from secondary_tier_domain [OF h1 h2 h3 h4 h5 h6] h5 h6 v c f
  show ?thesis by simp
qed

subsection \<open>The phase sequencer and the batch loop\<close>

lemma workflowLoop_map:
  "workflowLoop w cs acc = acc @ map (\<lambda>c. processHealthcareWebsite w (cand_url c)) cs"
  by (induction cs arbitrary: acc) simp_all

lemma found_nonempty: "findHealthcarePracticesWithEXA w n = Inr cands \<Longrightarrow> cands \<noteq> []"
  by (auto simp: findHealthcarePracticesWithEXA_def split: sum.splits if_splits option.splits list.splits)

lemma scrape_error: "scrapeHealthcareWebsite w u = Inl e \<Longrightarrow> e \<noteq> []"
  by (auto simp: scrapeHealthcareWebsite_def split: option.splits sum.splits)

lemma store_error: "storeLeadInNotion w p u = Inl e \<Longrightarrow> e \<noteq> []"
  by (auto simp: storeLeadInNotion_def split: sum.splits)

lemma repository_error: "createPersonalizedRepository w p a = Inl e \<Longrightarrow> e \<noteq> []"
  by (auto simp: createPersonalizedRepository_def Let_def split: sum.splits)

lemma processed_entry: "entryWellFormed (processHealthcareWebsite w u)"
  by (auto simp: entryWellFormed_def processHealthcareWebsite_def failedLead_def Let_def
           dest: scrape_error store_error repository_error
           split: sum.splits)

lemma processed_reported: "leadReported w u (processHealthcareWebsite w u)"
  by (simp add: leadReported_def processHealthcareWebsite_def failedLead_def Let_def
           split: sum.splits)

text \<open>
  C2. A batch over the candidates that discovery found returns a list with exactly one entry
  per candidate, in their order, whatever happens to each lead: no failure of a lead ends
  the batch. The entry of a lead whose extraction, store or repository phase raised has
  status \<open>failed\<close> and the message of that phase, which is not empty; the entry of a
  lead whose phases all returned has status \<open>success\<close> with demo URL, agent identifier
  and repository URL present.
\<close>

theorem batch_one_entry_per_candidate:
  assumes "findHealthcarePracticesWithEXA w n = Inr cands"
  shows "\<exists>results. executeAutonomousWorkflow w n = Inr results
           \<and> length results = length cands
           \<and> (\<forall>i < length cands.
                 leadReported w (cand_url (cands ! i)) (results ! i)
                 \<and> entryWellFormed (results ! i))"
proof -
  let ?rs = "map (\<lambda>c. processHealthcareWebsite w (cand_url c)) cands"
  from assms have "cands \<noteq> []" by (rule found_nonempty)
  with assms have "executeAutonomousWorkflow w n = Inr ?rs"
    by (simp add: executeAutonomousWorkflow_def workflowLoop_map)
  moreover have "\<forall>i < length cands.
                   leadReported w (cand_url (cands ! i)) (?rs ! i) \<and> entryWellFormed (?rs ! i)"
    by (simp add: processed_reported processed_entry)
  ultimately show ?thesis by simp
qed

theorem batch_one_entry_per_candidate_witness:
  "\<exists>cands results.
     findHealthcarePracticesWithEXA pushFailsWorld 2 = Inr cands
     \<and> executeAutonomousWorkflow pushFailsWorld 2 = Inr results
     \<and> length cands = 2 \<and> length results = 2
     \<and> map url results = map cand_url cands
     \<and> map status results = [''failed'', ''success'']
     \<and> map error_message results
         = [Some ''Repository creation failed: Repository personalization failed: git push failed'',
            None]
     \<and> leadReported pushFailsWorld (cand_url (cands ! 0)) (results ! 0)
     \<and> leadReported pushFailsWorld (cand_url (cands ! 1)) (results ! 1)"
proof -
  let ?cands = "[\<lparr>cand_url = ''https://www.glow-clinic.com/'', cand_title = Some ''Glow Clinic Vienna'',
                  snippet = ''Botox and fillers in Wien'', cand_id = Some ''1''\<rparr>,
                 \<lparr>cand_url = ''https://skin-lab.co.uk/about'', cand_title = Some ''Skin Lab'',
                  snippet = [], cand_id = Some ''2''\<rparr>]"
  have h: "findHealthcarePracticesWithEXA pushFailsWorld 2 = Inr ?cands"
    by code_simp
  from batch_one_entry_per_candidate [OF h] obtain results where
    r: "executeAutonomousWorkflow pushFailsWorld 2 = Inr results"
      "length results = length ?cands"
      "\<forall>i < length ?cands. leadReported pushFailsWorld (cand_url (?cands ! i)) (results ! i)
                              \<and> entryWellFormed (results ! i)"
    by blast
  have t0: "leadReported pushFailsWorld (cand_url (?cands ! 0)) (results ! 0)"
    using r(3) [THEN spec, of 0] by simp
  have t1: "leadReported pushFailsWorld (cand_url (?cands ! 1)) (results ! 1)"
    using r(3) [THEN spec, of 1] by simp
  have "map_sum id (map (\<lambda>r. (url r, status r, error_message r)))
          (executeAutonomousWorkflow pushFailsWorld 2)
          = Inr [(''https://www.glow-clinic.com/'', ''failed'',
                  Some ''Repository creation failed: Repository personalization failed: git push failed''),
                 (''https://skin-lab.co.uk/about'', ''success'', None)]"
    by code_simp
  with r(1) have m: "map (\<lambda>r. (url r, status r, error_message r)) results
          = [(''https://www.glow-clinic.com/'', ''failed'',
                  Some ''Repository creation failed: Repository personalization failed: git push failed''),
                 (''https://skin-lab.co.uk/about'', ''success'', None)]"
    by simp
  then obtain a b where ab: "results = [a, b]" by auto
  with m have "map url results = map cand_url ?cands"
    "map status results = [''failed'', ''success'']"
    "map error_message results
         = [Some ''Repository creation failed: Repository personalization failed: git push failed'',
            None]"
    by simp_all
  with h r(1,2) t0 t1 show ?thesis
    by (intro exI [of _ ?cands] exI [of _ results]) simp
qed

subsection \<open>Candidate discovery\<close>

lemma sliceTo_length: "0 \<le> c \<Longrightarrow> of_nat (length (sliceTo c xs)) \<le> c"
proof -
  assume c: "0 \<le> c"
  then have k: "0 \<le> \<lfloor>c\<rfloor>" by simp
  have "length (sliceTo c xs) \<le> nat \<lfloor>c\<rfloor>"
    using c k by (simp add: sliceTo_def truncate_def Let_def)
  then have "int (length (sliceTo c xs)) \<le> \<lfloor>c\<rfloor>"
    using k by linarith
  then have "of_int (int (length (sliceTo c xs))) \<le> (of_int \<lfloor>c\<rfloor> :: rat)"
    by (simp only: of_int_le_iff)
  also have "\<dots> \<le> c" by (rule of_int_floor_le)
  finally show ?thesis by simp
qed

lemma sliceTo_subset: "set (sliceTo c xs) \<subseteq> set xs"
  by (auto simp: sliceTo_def Let_def dest: in_set_takeD)

lemma locationMatches_iff:
  "locationMatches variants p =
     (\<exists>v \<in> set variants.
        sublist v (toLowerCase (orEmpty (hit_title p) @ '' '' @ hit_url p @ '' ''
                                @ orEmpty (hit_text p))))"
  by (simp add: locationMatches_def Let_def list_ex_iff str_includes_def)

lemma specialtyMatches_iff:
  "specialtyMatches sp p =
     (\<exists>t. (hit_title p = Some t \<or> hit_text p = Some t)
          \<and> sublist (toLowerCase sp) (toLowerCase t))"
  by (auto simp: specialtyMatches_def str_includes_def split: option.splits)

text \<open>
  C7, as stated, fails: the count reaches \<^verbatim>\<open>slice(0, leadCount)\<close> unchecked, and a
  negative count cuts from the end of the list, so the count \<open>-1\<close> with three hits
  returns two candidates.
\<close>

theorem discovery_exceeds_negative_count:
  "findHealthcarePracticesWithCustomEXA sampleWorld ''clinic'' (- 1) noFilters
     = Inr [sampleHits ! 0, sampleHits ! 1]
   \<and> \<not> of_nat (length [sampleHits ! 0, sampleHits ! 1]) \<le> (- 1 :: rat)"
  by code_simp

text \<open>
  C7, amended. Whatever the query and the configuration, for every requested count that is
  not negative a list that candidate discovery returns has at most \<open>count\<close> entries; and
  for every count, every entry of the list passes the location filter when a location is
  set (one of the expanded variants of the lower-cased location occurs in the lower-cased
  title, URL and text) and the specialty filter when a specialty is set (the lower-cased
  specialty occurs in the lower-cased title or in the lower-cased text).
\<close>

theorem discovery_bounded_and_filtered:
  assumes "findHealthcarePracticesWithCustomEXA w q n cfg = Inr ps"
  shows "(0 \<le> n \<longrightarrow> of_nat (length ps) \<le> n)
         \<and> (\<forall>p \<in> set ps. \<forall>loc.
               wf_location cfg = Some loc \<and> loc \<noteq> [] \<longrightarrow>
               (\<exists>v \<in> set (locationVariants (toLowerCase loc)).
                  sublist v (toLowerCase (orEmpty (hit_title p) @ '' '' @ hit_url p @ '' ''
                                          @ orEmpty (hit_text p)))))
         \<and> (\<forall>p \<in> set ps. \<forall>sp.
               specialty cfg = Some sp \<and> sp \<noteq> [] \<longrightarrow>
               (\<exists>t. (hit_title p = Some t \<or> hit_text p = Some t)
                    \<and> sublist (toLowerCase sp) (toLowerCase t)))"
proof (cases "exaSearchCustom w q (min (n * 2) 20)")
  case (Inl e)
  with assms show ?thesis by (simp add: findHealthcarePracticesWithCustomEXA_def)
next
  case (Inr results)
  let ?practices = "case results of None \<Rightarrow> [] | Some hits \<Rightarrow> hits"
  let ?located = "case active (wf_location cfg) of
                    None \<Rightarrow> ?practices
                  | Some loc \<Rightarrow> filter (locationMatches (locationVariants (toLowerCase loc))) ?practices"
  let ?special = "case active (specialty cfg) of
                    None \<Rightarrow> ?located
                  | Some sp \<Rightarrow> filter (specialtyMatches sp) ?located"
  from assms Inr have ps: "ps = [] \<or> ps = sliceTo n ?special"
    by (auto simp: findHealthcarePracticesWithCustomEXA_def Let_def split: if_splits)
  then have sub: "set ps \<subseteq> set ?special"
    using sliceTo_subset [of n ?special] by auto
  have bound: "of_nat (length ps) \<le> n" if "0 \<le> n"
    using ps that sliceTo_length [of n ?special] by auto
  have loc: "locationMatches (locationVariants (toLowerCase loc)) p"
    if "p \<in> set ps" "wf_location cfg = Some loc" "loc \<noteq> []" for p loc
  proof -
    from that(2,3) have a: "active (wf_location cfg) = Some loc" by (simp add: active_def)
    from that(1) sub have "p \<in> set ?special" by blast
    then have "p \<in> set ?located"
      by (cases "active (specialty cfg)") simp_all
    with a show ?thesis by simp
  qed
  have spec: "specialtyMatches sp p"
    if "p \<in> set ps" "specialty cfg = Some sp" "sp \<noteq> []" for p sp
  proof -
    from that(2,3) have a: "active (specialty cfg) = Some sp" by (simp add: active_def)
    from that(1) sub have "p \<in> set ?special" by blast
    with a show ?thesis by simp
  qed
  from bound loc spec show ?thesis
    unfolding locationMatches_iff specialtyMatches_iff by blast
qed

theorem discovery_bounded_and_filtered_witness:
  "findHealthcarePracticesWithCustomEXA sampleWorld ''botox clinic austria'' 2 austriaBotox
     = Inr [sampleHits ! 0, sampleHits ! 2]
   \<and> (0::rat) \<le> 2 \<and> wf_location austriaBotox = Some ''Austria''
   \<and> specialty austriaBotox = Some ''Botox''
   \<and> ''graz'' \<in> set (locationVariants (toLowerCase ''Austria''))
   \<and> (\<exists>v \<in> set (locationVariants (toLowerCase ''Austria'')).
         sublist v (toLowerCase (orEmpty (hit_title (sampleHits ! 2)) @ '' ''
                                 @ hit_url (sampleHits ! 2) @ '' ''
                                 @ orEmpty (hit_text (sampleHits ! 2)))))
   \<and> (\<exists>t. (hit_title (sampleHits ! 2) = Some t \<or> hit_text (sampleHits ! 2) = Some t)
          \<and> sublist (toLowerCase ''Botox'') (toLowerCase t))
   \<and> \<not> locationMatches (locationVariants (toLowerCase ''Austria'')) (sampleHits ! 1)"
proof -
  have h: "findHealthcarePracticesWithCustomEXA sampleWorld ''botox clinic austria'' 2 austriaBotox
             = Inr [sampleHits ! 0, sampleHits ! 2]"
    by code_simp
  have l: "wf_location austriaBotox = Some ''Austria''" by code_simp
  have s: "specialty austriaBotox = Some ''Botox''" by code_simp
  have g: "''graz'' \<in> set (locationVariants (toLowerCase ''Austria''))" by code_simp
  have n: "\<not> locationMatches (locationVariants (toLowerCase ''Austria'')) (sampleHits ! 1)"
    by code_simp
  from discovery_bounded_and_filtered [OF h] l s
  have "(\<exists>v \<in> set (locationVariants (toLowerCase ''Austria'')).
         sublist v (toLowerCase (orEmpty (hit_title (sampleHits ! 2)) @ '' ''
                                 @ hit_url (sampleHits ! 2) @ '' ''
                                 @ orEmpty (hit_text (sampleHits ! 2)))))"
    and "(\<exists>t. (hit_title (sampleHits ! 2) = Some t \<or> hit_text (sampleHits ! 2) = Some t)
          \<and> sublist (toLowerCase ''Botox'') (toLowerCase t))"
    by auto
  with h l s g n show ?thesis by simp
qed

subsection \<open>The custom filter engine\<close>
















lemma trimStart_nonblank: "list_ex (\<lambda>c. \<not> js_space c) s \<Longrightarrow> trimStart s \<noteq> []"
  by (auto simp: trimStart_def list_ex_iff)








subsection \<open>The conversational configurator\<close>

text \<open>What the stripping of code fences leaves of a fenced and of a bare text.\<close>

lemma blank_dropWhile: "blank ws \<Longrightarrow> dropWhile js_space (ws @ s) = dropWhile js_space s"
  by (simp add: blank_def list_all_iff dropWhile_append2)

lemma fence_not_space: "dropWhile js_space (fence @ s) = fence @ s"
  by (simp add: fence_def js_space_def)

lemma rev_fence: "rev fence = fence"
  by (simp add: fence_def)

lemma unpadded_dropWhile: "unpadded s \<Longrightarrow> dropWhile js_space s = s"
  by (cases s) (simp_all add: unpadded_def)

lemma unpadded_iff: "unpadded s = (s = [] \<or> (\<not> js_space (hd s) \<and> \<not> js_space (last s)))"
  by (cases s) (simp_all add: unpadded_def)

lemma unpadded_rev: "unpadded s \<Longrightarrow> unpadded (rev s)"
  by (auto simp: unpadded_iff hd_rev last_rev)

lemma trimEnd_padded:
  assumes "blank ws" and "unpadded s"
  shows "trimEnd (s @ ws) = s"
proof -
  from assms(1) have "blank (rev ws)" by (simp add: blank_def)
  then have "dropWhile js_space (rev ws @ rev s) = dropWhile js_space (rev s)"
    by (rule blank_dropWhile)
  also have "\<dots> = rev s"
    using assms(2) by (intro unpadded_dropWhile unpadded_rev)
  finally show ?thesis by (simp add: trimEnd_def)
qed

lemma trim_padded:
  assumes "blank ws1" and "blank ws2" and "unpadded s"
  shows "trim (ws1 @ s @ ws2) = s"
proof (cases s)
  case Nil
  from assms(1,2) have "dropWhile js_space (ws1 @ ws2) = []"
    by (auto simp: blank_def list_all_iff)
  with Nil have "trimStart (ws1 @ s @ ws2) = []"
    by (simp only: trimStart_def append_Nil)
  with Nil show ?thesis
    by (simp only: trim_def trimEnd_def rev.simps dropWhile.simps)
next
  case (Cons c cs)
  with assms(3) have "dropWhile js_space (s @ ws2) = s @ ws2"
    by (simp add: unpadded_def)
  with assms(1) have "trimStart (ws1 @ s @ ws2) = s @ ws2"
    by (simp add: trimStart_def blank_dropWhile)
  then show ?thesis
    using trimEnd_padded [OF assms(2,3)] by (simp add: trim_def)
qed

lemma fenced_unpadded: "unpadded (fence @ s @ fence)"
  by (simp add: unpadded_def fence_def js_space_def)

lemma dropClosing_body:
  assumes "blank ws" and "unpadded body"
  shows "dropClosing (body @ ws @ fence) = body"
proof -
  have "suffix fence (body @ ws @ fence)"
    by (metis append.assoc suffixI)
  moreover have "drop 3 (rev (body @ ws @ fence)) = rev (body @ ws)"
    by (simp add: fence_def)
  moreover have "rev (dropWhile js_space (rev (body @ ws))) = body"
    using trimEnd_padded [OF assms] by (simp add: trimEnd_def)
  ultimately show ?thesis by (simp add: dropClosing_def)
qed

lemma dropWhile_body:
  assumes "blank ws2" and "blank ws3" and "unpadded body"
  shows "dropClosing (dropWhile js_space (ws2 @ body @ ws3 @ fence)) = body"
proof (cases body)
  case Nil
  have "dropWhile js_space (ws2 @ ws3 @ fence) = fence"
    using assms(1,2) by (simp add: blank_dropWhile fence_not_space [of "[]", simplified])
  moreover have "dropClosing fence = []"
    using dropClosing_body [of "[]" "[]"] by (simp add: blank_def unpadded_def)
  ultimately show ?thesis using Nil by simp
next
  case (Cons c cs)
  with assms(3) have "dropWhile js_space (body @ ws3 @ fence) = body @ ws3 @ fence"
    by (simp add: unpadded_def)
  then have "dropWhile js_space (ws2 @ body @ ws3 @ fence) = body @ ws3 @ fence"
    using assms(1) by (simp add: blank_dropWhile)
  then show ?thesis using dropClosing_body [OF assms(2,3)] by simp
qed

lemma stripCodeFences_json:
  assumes "blank ws1" "blank ws2" "blank ws3" "blank ws4" "unpadded body"
  shows "stripCodeFences (ws1 @ fence @ ''json'' @ ws2 @ body @ ws3 @ fence @ ws4) = body"
proof -
  let ?c = "fence @ (''json'' @ ws2 @ body @ ws3) @ fence"
  have "trim (ws1 @ ?c @ ws4) = ?c"
    using assms(1,4) fenced_unpadded by (rule trim_padded)
  then have t: "trim (ws1 @ fence @ ''json'' @ ws2 @ body @ ws3 @ fence @ ws4) = ?c"
    by simp
  have p: "prefix (fence @ ''json'') ?c" by simp
  have s: "suffix fence ?c" by (rule suffixI) simp
  have "dropOpening (fence @ ''json'') ?c = dropWhile js_space (ws2 @ body @ ws3 @ fence)"
    using p by (simp add: dropOpening_def)
  with dropWhile_body [OF assms(2,3,5)] t p s show ?thesis
    by (simp add: stripCodeFences_def startsWith_def endsWith_def Let_def)
qed

lemma stripCodeFences_plain:
  assumes "blank ws1" "blank ws2" "blank ws3" "blank ws4" "unpadded body"
    and "\<not> prefix ''json'' (ws2 @ body @ ws3 @ fence)"
  shows "stripCodeFences (ws1 @ fence @ ws2 @ body @ ws3 @ fence @ ws4) = body"
proof -
  let ?c = "fence @ (ws2 @ body @ ws3) @ fence"
  have "trim (ws1 @ ?c @ ws4) = ?c"
    using assms(1,4) fenced_unpadded by (rule trim_padded)
  then have t: "trim (ws1 @ fence @ ws2 @ body @ ws3 @ fence @ ws4) = ?c"
    by simp
  have n: "\<not> prefix (fence @ ''json'') ?c" using assms(6) by simp
  have p: "prefix fence ?c" by simp
  have s: "suffix fence ?c" by (rule suffixI) simp
  have "dropOpening fence ?c = dropWhile js_space (ws2 @ body @ ws3 @ fence)"
    by (simp add: dropOpening_def)
  with dropWhile_body [OF assms(2,3,5)] t n p s show ?thesis
    by (simp add: stripCodeFences_def startsWith_def endsWith_def Let_def)
qed

lemma stripCodeFences_unfenced:
  "\<not> (prefix fence (trim s) \<and> suffix fence (trim s)) \<Longrightarrow> stripCodeFences s = trim s"
  by (auto simp: stripCodeFences_def startsWith_def endsWith_def Let_def dest: append_prefixD)

text \<open>
  C9, as stated, fails: the configurator also throws when the request succeeds and the reply
  has no first choice with a message to read the content from, as a reply that reports an
  error in its body does; and it throws before any request when an entry of the history has
  a content that cannot be made a string, as a reply of the model stored by an earlier turn
  can be.
\<close>

theorem configurator_throws_without_choices:
  "chatCompletion noChoicesWorld (JStr ''Find 3 botox clinics in Berlin'') []
     = Inr (JObj [(''error'', JStr ''rate limited'')])
   \<and> processConversationalInput noChoicesWorld (JStr ''Find 3 botox clinics in Berlin'') []
       = Inl ''AI model communication failed''
   \<and> chatCompletion sampleWorld (JStr ''Find 3 botox clinics in Berlin'') opaqueHistory
       = Inr (completionOf (JStr ''Hello''))
   \<and> processConversationalInput sampleWorld (JStr ''Find 3 botox clinics in Berlin'') opaqueHistory
       = Inl ''Cannot convert object to primitive value''"
  by code_simp

text \<open>
  C9, amended. The configurator throws exactly when the message or the content of an entry
  of the history cannot be made a string, or the request fails, or the read of
  \<^verbatim>\<open>response.data.choices[0].message.content\<close> raises: in the first case with the
  \<^verbatim>\<open>TypeError\<close> of the conversion, in the other two with the message
  \<open>AI model communication failed\<close>. Whenever message and history can be made strings and a
  completion text is received, it strips the code fences, parses the rest as JSON and returns
  the parsed value, or, when the parse fails, the object with \<open>executeWorkflow\<close> false
  and the raw text as \<open>response\<close>. What is parsed is the body of a text fenced with or
  without the word \<open>json\<close>, white space around the fences and the body aside, and the
  trimmed text when it is not fenced.
\<close>

theorem configurator_throws_iff:
  "isl (processConversationalInput w m h)
     = (\<not> promptConvertible m h
        \<or> (case chatCompletion w m h of Inl e \<Rightarrow> True | Inr data \<Rightarrow> isl (messageContent data)))
   \<and> (\<not> promptConvertible m h \<longrightarrow> processConversationalInput w m h = Inl cannotConvert)
   \<and> (promptConvertible m h \<and> isl (processConversationalInput w m h) \<longrightarrow>
        processConversationalInput w m h = Inl ''AI model communication failed'')
   \<and> (promptConvertible m h \<and> chatCompletion w m h = Inr data
        \<and> messageContent data = Inr (JStr s) \<longrightarrow>
        processConversationalInput w m h =
          (case jsonParse w (stripCodeFences s) of
             Some parsed \<Rightarrow> Inr parsed
           | None \<Rightarrow> Inr (textResponse (JStr s)))
        \<and> (\<forall>ws1 ws2 ws3 ws4 body.
              blank ws1 \<and> blank ws2 \<and> blank ws3 \<and> blank ws4 \<and> unpadded body
              \<and> (s = ws1 @ fence @ ''json'' @ ws2 @ body @ ws3 @ fence @ ws4
                  \<or> s = ws1 @ fence @ ws2 @ body @ ws3 @ fence @ ws4
                    \<and> \<not> prefix ''json'' (ws2 @ body @ ws3 @ fence)
                  \<or> s = ws1 @ body @ ws4 \<and> \<not> (prefix fence body \<and> suffix fence body)) \<longrightarrow>
              processConversationalInput w m h =
                (case jsonParse w body of
                   Some parsed \<Rightarrow> Inr parsed
                 | None \<Rightarrow> Inr (textResponse (JStr s)))))"
proof -
  have a: "isl (processConversationalInput w m h)
     = (\<not> promptConvertible m h
        \<or> (case chatCompletion w m h of Inl e \<Rightarrow> True | Inr data \<Rightarrow> isl (messageContent data)))"
    by (auto simp: processConversationalInput_def split: sum.splits jsval.splits option.splits)
  have b: "processConversationalInput w m h = Inl cannotConvert" if "\<not> promptConvertible m h"
    using that by (simp add: processConversationalInput_def)
  have c: "processConversationalInput w m h = Inl ''AI model communication failed''"
    if "promptConvertible m h" "isl (processConversationalInput w m h)"
    using that
    by (auto simp: processConversationalInput_def split: sum.splits jsval.splits option.splits)
  have d: "processConversationalInput w m h =
          (case jsonParse w (stripCodeFences s) of
             Some parsed \<Rightarrow> Inr parsed
           | None \<Rightarrow> Inr (textResponse (JStr s)))"
    if "promptConvertible m h" "chatCompletion w m h = Inr data" "messageContent data = Inr (JStr s)"
    using that by (simp add: processConversationalInput_def)
  have e: "stripCodeFences s = body"
    if bl: "blank ws1" "blank ws2" "blank ws3" "blank ws4" and up: "unpadded body"
       and sh: "s = ws1 @ fence @ ''json'' @ ws2 @ body @ ws3 @ fence @ ws4
        \<or> s = ws1 @ fence @ ws2 @ body @ ws3 @ fence @ ws4
          \<and> \<not> prefix ''json'' (ws2 @ body @ ws3 @ fence)
        \<or> s = ws1 @ body @ ws4 \<and> \<not> (prefix fence body \<and> suffix fence body)"
    for ws1 ws2 ws3 ws4 body
  proof -
    consider (json) "s = ws1 @ fence @ ''json'' @ ws2 @ body @ ws3 @ fence @ ws4"
      | (plain) "s = ws1 @ fence @ ws2 @ body @ ws3 @ fence @ ws4"
                "\<not> prefix ''json'' (ws2 @ body @ ws3 @ fence)"
      | (bare) "s = ws1 @ body @ ws4" "\<not> (prefix fence body \<and> suffix fence body)"
      using sh by blast
    then show ?thesis
    proof cases
      case json
      show ?thesis unfolding json by (rule stripCodeFences_json [OF bl up])
    next
      case plain
      show ?thesis unfolding plain(1) by (rule stripCodeFences_plain [OF bl up plain(2)])
    next
      case bare
      from bl(1,4) up have "trim s = body"
        unfolding bare(1) by (rule trim_padded)
      with bare(2) show ?thesis
        using stripCodeFences_unfenced [of s] by simp
    qed
  qed
  from a b c d e show ?thesis by (simp only:) metis
qed

theorem configurator_throws_iff_witness:
  "promptConvertible (JStr ''What can you do?'') [] \<and> \<not> promptConvertible (JStr ''What can you do?'') opaqueHistory
   \<and> processConversationalInput sampleWorld (JStr ''What can you do?'') opaqueHistory = Inl cannotConvert
   \<and> processConversationalInput noChoicesWorld (JStr ''What can you do?'') []
       = Inl ''AI model communication failed''
   \<and> chatCompletion fencedWorld (JStr ''What can you do?'') []
       = Inr (completionOf (JStr (fence @ ''json'' @ [CHR 0x0A] @ replyText @ [CHR 0x0A] @ fence)))
   \<and> blank [CHR 0x0A] \<and> unpadded replyText
   \<and> processConversationalInput fencedWorld (JStr ''What can you do?'') []
       = Inr (JObj [(''executeWorkflow'', JBool False), (''response'', JStr ''Hi'')])
   \<and> processConversationalInput sampleWorld (JStr ''What can you do?'') []
       = Inr (textResponse (JStr ''Hello''))"
proof -
  let ?m = "JStr ''What can you do?''"
  let ?s = "fence @ ''json'' @ [CHR 0x0A] @ replyText @ [CHR 0x0A] @ fence"
  have h0: "promptConvertible ?m []" by code_simp
  have h1: "\<not> promptConvertible ?m opaqueHistory" by code_simp
  have n: "isl (processConversationalInput noChoicesWorld ?m [])" by code_simp
  have c: "chatCompletion fencedWorld ?m [] = Inr (completionOf (JStr ?s))"
    by code_simp
  have k: "messageContent (completionOf (JStr ?s)) = Inr (JStr ?s)"
    by code_simp
  have bl: "blank []" "blank [CHR 0x0A]" by code_simp+
  have up: "unpadded replyText" "unpadded ''Hello''" by code_simp+
  have p: "jsonParse fencedWorld replyText
             = Some (JObj [(''executeWorkflow'', JBool False), (''response'', JStr ''Hi'')])"
    by code_simp
  have c2: "chatCompletion sampleWorld ?m [] = Inr (completionOf (JStr ''Hello''))"
    by code_simp
  have k2: "messageContent (completionOf (JStr ''Hello'')) = Inr (JStr ''Hello'')"
    by code_simp
  have nf: "\<not> (prefix fence ''Hello'' \<and> suffix fence ''Hello'')" by code_simp
  have p2: "jsonParse sampleWorld ''Hello'' = None"
    by code_simp
  note t = configurator_throws_iff
  from t [where w = sampleWorld and m = ?m and h = opaqueHistory] h1
  have r1: "processConversationalInput sampleWorld ?m opaqueHistory = Inl cannotConvert"
    by blast
  from t [where w = noChoicesWorld and m = ?m and h = "[]"] h0 n
  have r2: "processConversationalInput noChoicesWorld ?m [] = Inl ''AI model communication failed''"
    by blast
  from t [where w = fencedWorld and m = ?m and h = "[]" and data = "completionOf (JStr ?s)"
            and s = ?s] h0 c k
  have "\<forall>ws1 ws2 ws3 ws4 body.
              blank ws1 \<and> blank ws2 \<and> blank ws3 \<and> blank ws4 \<and> unpadded body
              \<and> (?s = ws1 @ fence @ ''json'' @ ws2 @ body @ ws3 @ fence @ ws4
                  \<or> ?s = ws1 @ fence @ ws2 @ body @ ws3 @ fence @ ws4
                    \<and> \<not> prefix ''json'' (ws2 @ body @ ws3 @ fence)
                  \<or> ?s = ws1 @ body @ ws4 \<and> \<not> (prefix fence body \<and> suffix fence body)) \<longrightarrow>
              processConversationalInput fencedWorld ?m [] =
                (case jsonParse fencedWorld body of
                   Some parsed \<Rightarrow> Inr parsed
                 | None \<Rightarrow> Inr (textResponse (JStr ?s)))"
    by blast
  from this [THEN spec, of "[]", THEN spec, of "[CHR 0x0A]", THEN spec, of "[CHR 0x0A]",
             THEN spec, of "[]", THEN spec, of replyText] bl up p
  have r3: "processConversationalInput fencedWorld ?m []
       = Inr (JObj [(''executeWorkflow'', JBool False), (''response'', JStr ''Hi'')])"
    by simp
  from t [where w = sampleWorld and m = ?m and h = "[]" and data = "completionOf (JStr ''Hello'')"
            and s = "''Hello''"] h0 c2 k2
  have "\<forall>ws1 ws2 ws3 ws4 body.
              blank ws1 \<and> blank ws2 \<and> blank ws3 \<and> blank ws4 \<and> unpadded body
              \<and> (''Hello'' = ws1 @ fence @ ''json'' @ ws2 @ body @ ws3 @ fence @ ws4
                  \<or> ''Hello'' = ws1 @ fence @ ws2 @ body @ ws3 @ fence @ ws4
                    \<and> \<not> prefix ''json'' (ws2 @ body @ ws3 @ fence)
                  \<or> ''Hello'' = ws1 @ body @ ws4 \<and> \<not> (prefix fence body \<and> suffix fence body)) \<longrightarrow>
              processConversationalInput sampleWorld ?m [] =
                (case jsonParse sampleWorld body of
                   Some parsed \<Rightarrow> Inr parsed
                 | None \<Rightarrow> Inr (textResponse (JStr ''Hello'')))"
    by blast
  from this [THEN spec, of "[]", THEN spec, of "[]", THEN spec, of "[]",
             THEN spec, of "[]", THEN spec, of "''Hello''"] bl up nf p2
  have r4: "processConversationalInput sampleWorld ?m [] = Inr (textResponse (JStr ''Hello''))"
    by simp
  from h0 h1 r1 r2 c bl up r3 r4 show ?thesis by simp
qed

subsection \<open>The chat session manager\<close>

text \<open>
  A turn leaves the other channels as they were, and no history grows beyond 11 entries;
  the history handed to the configurator has at most 10.
\<close>

lemma turn_other_channel:
  "c' \<noteq> c \<Longrightarrow> handleConversationalMessage t ctxs c m c' = ctxs c'"
  by (simp add: handleConversationalMessage_def Let_def split: sum.splits)

lemma capHistory_length: "length (capHistory h) \<le> 10"
  by (simp add: capHistory_def)

lemma capHistory_length_weak: "length (capHistory h) \<le> 11"
  using capHistory_length [of h] by simp

lemma turn_history_bound: "historyLength (handleConversationalMessage t ctxs c m) c \<le> 11"
  by (simp add: handleConversationalMessage_def historyLength_def Let_def
                capHistory_length capHistory_length_weak
           split: sum.splits)

lemma turn_other_length:
  "c' \<noteq> c \<Longrightarrow> historyLength (handleConversationalMessage t ctxs c m) c' = historyLength ctxs c'"
  by (simp add: historyLength_def turn_other_channel)

lemma runTurns_history_bound:
  "historyLength ctxs c \<le> 11 \<Longrightarrow> historyLength (runTurns ts ctxs) c \<le> 11"
proof (induction ts arbitrary: ctxs)
  case Nil
  then show ?case by simp
next
  case (Cons x ts)
  obtain t c' m where x: "x = (t, c', m)" by (cases x)
  have "historyLength (handleConversationalMessage t ctxs c' m) c \<le> 11"
    using Cons.prems turn_history_bound [of t ctxs c m] turn_other_length [of c c' t ctxs m]
    by (cases "c = c'") simp_all
  with Cons.IH x show ?case by simp
qed

lemma runTurns_other_channel:
  "list_all (\<lambda>(t, c', m). c' \<noteq> c) ts \<Longrightarrow> runTurns ts ctxs c = ctxs c"
  by (induction ts arbitrary: ctxs) (auto simp: turn_other_channel)

text \<open>
  C4. The history of a channel is meant to hold at most 10 entries after every turn. The cut
  to the last 10 is made after the operator's message is pushed and not after the reply is
  pushed, so a turn that starts with 10 entries ends with 11: five answered turns fill the
  history, and after the sixth it holds 11. The channels stay apart
  (\<open>turn_other_channel\<close>).
\<close>

theorem history_exceeds_ten:
  "historyLength (runTurns (replicate 5 (sampleTurn, 1, ''hi'')) Map.empty) 1 = 10
   \<and> historyLength (runTurns (replicate 6 (sampleTurn, 1, ''hi'')) Map.empty) 1 = 11"
  by code_simp


end
